theory Spec2Isabelle
  imports Main "HOL-Library.Word" "HOL-Library.Sublist"
begin

section \<open>Data model (pkg/apis/nlboperator/v1/nlb_types.go)\<close>

text \<open>
  Go strings are \<open>string\<close>; \<open>int32\<close> and \<open>int64\<close> are machine words; a
  \<open>time.Duration\<close> is a number of nanoseconds; a Go \<open>error\<close> is the text that
  \<open>err.Error()\<close> yields, and \<open>None\<close> is the nil error.
\<close>

type_synonym int32 = "32 word"
type_synonym int64 = "64 word"
type_synonym Duration = int
type_synonym Time = int
type_synonym error = string

definition Second :: Duration where
  "Second = 1000000000"

definition Minute :: Duration where
  "Minute = 60 * Second"

record ListenerSpec =
  ListenerProtocol :: string
  ListenerPort :: int32
  ServerGroupId :: string
  ListenerDescription :: string
  IdleTimeout :: int32
  SecurityPolicyId :: string
  CertificateIds :: "string list"
  CaCertificateIds :: "string list"
  CaEnabled :: "bool option"
  ProxyProtocolEnabled :: "bool option"

text \<open>
  \<open>NLBSpec\<close>: the fields the reconciler reads (\<open>SecurityGroupIds\<close>, \<open>Listeners\<close>)
  and the scalar fields of the create request. The nested \<open>ZoneMappings\<close>,
  \<open>DeletionProtection\<close>, \<open>ModificationProtection\<close> and \<open>Tags\<close> are only copied
  field by field into the create request, which is represented below by the spec it is
  built from.
\<close>

record NLBSpec =
  LoadBalancerName :: string
  AddressType :: string
  AddressIpVersion :: string
  VpcId :: string
  ResourceGroupId :: string
  SecurityGroupIds :: "string list"
  BandwidthPackageId :: string
  Listeners :: "ListenerSpec list"

record ListenerStatus =
  ListenerPort :: int32
  ListenerId :: string
  Status :: string

datatype ConditionStatus = ConditionTrue | ConditionFalse | ConditionUnknown

record Condition =
  Type :: string
  Status :: ConditionStatus
  Reason :: string
  Message :: string
  LastTransitionTime :: Time
  ObservedGeneration :: int64

record NLBStatus =
  LoadBalancerId :: string
  DNSName :: string
  LoadBalancerStatus :: string
  Conditions :: "Condition list"
  ListenerStatus :: "ListenerStatus list"

text \<open>The object: the parts of \<open>ObjectMeta\<close> the reconciler reads, spec and status.\<close>

record NLB =
  Generation :: int64
  DeletionTimestamp :: "Time option"
  Finalizers :: "string list"
  Spec :: NLBSpec
  Status :: NLBStatus

text \<open>\<open>ctrl.Result\<close>, the retry directive handed back to the dispatcher.\<close>

record Result =
  Requeue :: bool
  RequeueAfter :: Duration

definition Result_empty :: Result where
  "Result_empty = \<lparr>Requeue = False, RequeueAfter = 0\<rparr>"

section \<open>The environment: provider SDK, API server, clock\<close>

text \<open>
  The body of an SDK response: the pointer fields the client reads, \<open>None\<close> for nil.
  A response is the pair Go returns, \<open>(resp, err)\<close>; the first component is \<open>None\<close>
  when \<open>resp\<close> or \<open>resp.Body\<close> is nil.
\<close>

record Body =
  BodyLoadbalancerId :: "string option"
  BodyListenerId :: "string option"
  BodyJobId :: "string option"
  BodyStatus :: "string option"
  BodyDNSName :: "string option"
  BodyLoadBalancerStatus :: "string option"

type_synonym sdk_resp = "Body option \<times> error option"

datatype sdk_req =
    CreateLoadBalancerRequest NLBSpec
  | DeleteLoadBalancerRequest string
  | GetLoadBalancerAttributeRequest string
  | UpdateLoadBalancerProtectionRequest string bool "string option"
  | LoadBalancerJoinSecurityGroupRequest string "string list"
  | CreateListenerRequest string ListenerSpec
  | DeleteListenerRequest string
  | GetJobStatusRequest string

text \<open>Writes to the API server: \<open>r.Update\<close> and \<open>r.Status().Update\<close>.\<close>

datatype k8s_req = Update NLB | StatusUpdate NLB

text \<open>The answer of \<open>r.Get\<close>; the flag of \<open>GetError\<close> is \<open>errors.IsNotFound\<close>.\<close>

datatype get_resp = Found NLB | GetError bool error

text \<open>
  What a reconciliation does to the outside, in order: SDK requests with their
  responses, API-server calls with their results, events given to the recorder, the
  warnings \<open>DeleteLoadBalancer\<close> logs, and the pauses of a polling loop.
  Informational log lines are left out: nothing depends on them.
\<close>

datatype event =
    Sdk sdk_req sdk_resp
  | K8s k8s_req "error option"
  | K8sGet string get_resp
  | RecorderEvent string string string
  | Warningf string
  | Sleep Duration

text \<open>
  The environment answers every call as a function of everything that happened
  before; this makes the model deterministic and lets a provider remember what was
  created or deleted.
\<close>

record env =
  sdk :: "event list \<Rightarrow> sdk_req \<Rightarrow> sdk_resp"
  k8s :: "event list \<Rightarrow> k8s_req \<Rightarrow> error option"
  k8s_get :: "event list \<Rightarrow> string \<Rightarrow> get_resp"
  now :: "event list \<Rightarrow> Time"

definition sdk_call :: "env \<Rightarrow> event list \<Rightarrow> sdk_req \<Rightarrow> sdk_resp \<times> event list" where
  "sdk_call e tr req = (sdk e tr req, tr @ [Sdk req (sdk e tr req)])"

definition k8s_call :: "env \<Rightarrow> event list \<Rightarrow> k8s_req \<Rightarrow> error option \<times> event list" where
  "k8s_call e tr req = (k8s e tr req, tr @ [K8s req (k8s e tr req)])"

section \<open>Library functions the client uses\<close>

text \<open>\<open>strings.Contains\<close>.\<close>

fun Contains :: "string \<Rightarrow> string \<Rightarrow> bool" where
  "Contains [] substr = (substr = [])"
| "Contains (c # s) substr = (prefix substr (c # s) \<or> Contains s substr)"

text \<open>\<open>tea.StringValue\<close>: the empty string for nil.\<close>

definition StringValue :: "string option \<Rightarrow> string" where
  "StringValue p = (case p of None \<Rightarrow> [] | Some s \<Rightarrow> s)"

definition ErrWaitTimeout :: error where
  "ErrWaitTimeout = ''timed out waiting for the condition''"

text \<open>
  Modelled from the spec: \<open>wait.PollImmediate\<close> of k8s.io/apimachinery is not under
  src/. The spec's Job Waiter: the condition is tried at once; a condition error or a
  true condition ends the loop; otherwise the loop pauses for the interval and tries
  again, as long as the pause still fits under the ceiling; past the ceiling it
  returns the timeout error. \<open>poll\<close> counts the pauses that still fit.
\<close>

fun poll :: "Duration \<Rightarrow> nat \<Rightarrow> (event list \<Rightarrow> (bool \<times> error option) \<times> event list)
    \<Rightarrow> event list \<Rightarrow> error option \<times> event list" where
  "poll interval n cond tr =
     (case cond tr of ((ok, err), tr1) \<Rightarrow>
        (case err of
           Some m \<Rightarrow> (Some m, tr1)
         | None \<Rightarrow>
             (if ok then (None, tr1)
              else (case n of
                      0 \<Rightarrow> (Some ErrWaitTimeout, tr1)
                    | Suc k \<Rightarrow> poll interval k cond (tr1 @ [Sleep interval])))))"

definition PollImmediate :: "Duration \<Rightarrow> Duration
    \<Rightarrow> (event list \<Rightarrow> (bool \<times> error option) \<times> event list)
    \<Rightarrow> event list \<Rightarrow> error option \<times> event list" where
  "PollImmediate interval timeout cond tr = poll interval (nat (timeout div interval)) cond tr"

section \<open>The provider client (pkg/provider/nlb\_client.go)\<close>

text \<open>
  Every method issues its request, looks at \<open>err\<close> first, then at a nil response or
  body, then at the fields of the body. \<open>fmt.Errorf("...: %v", err)\<close> puts the text of
  \<open>err\<close> after the prefix.
\<close>

definition CreateLoadBalancer :: "env \<Rightarrow> event list \<Rightarrow> NLB \<Rightarrow> (string \<times> error option) \<times> event list" where
  "CreateLoadBalancer e tr nlb =
     (case sdk_call e tr (CreateLoadBalancerRequest (Spec nlb)) of ((resp, err), tr1) \<Rightarrow>
        (case err of
           Some m \<Rightarrow> (([], Some (''failed to create load balancer: '' @ m)), tr1)
         | None \<Rightarrow>
             (case resp of
                None \<Rightarrow> (([], Some ''invalid response from CreateLoadBalancer API''), tr1)
              | Some b \<Rightarrow>
                  (case BodyLoadbalancerId b of
                     None \<Rightarrow> (([], Some ''invalid response from CreateLoadBalancer API''), tr1)
                   | Some lbId \<Rightarrow> ((lbId, None), tr1)))))"

definition GetLoadBalancer :: "env \<Rightarrow> event list \<Rightarrow> string \<Rightarrow> (Body option \<times> error option) \<times> event list" where
  "GetLoadBalancer e tr lbId =
     (case sdk_call e tr (GetLoadBalancerAttributeRequest lbId) of ((resp, err), tr1) \<Rightarrow>
        (case err of
           Some m \<Rightarrow>
             (if Contains m ''ResourceNotFound'' then ((None, None), tr1)
              else ((None, Some (''failed to get load balancer: '' @ m)), tr1))
         | None \<Rightarrow>
             (case resp of
                None \<Rightarrow> ((None, Some ''invalid response from GetLoadBalancerAttribute API''), tr1)
              | Some b \<Rightarrow> ((Some b, None), tr1))))"

definition UpdateLoadBalancerProtection :: "env \<Rightarrow> event list \<Rightarrow> string \<Rightarrow> bool \<Rightarrow> string
    \<Rightarrow> error option \<times> event list" where
  "UpdateLoadBalancerProtection e tr lbId enabled reason =
     (case sdk_call e tr (UpdateLoadBalancerProtectionRequest lbId enabled
             (if reason \<noteq> [] then Some reason else None)) of ((resp, err), tr1) \<Rightarrow>
        (case err of
           Some m \<Rightarrow> (Some (''failed to update load balancer protection: '' @ m), tr1)
         | None \<Rightarrow>
             (case resp of
                None \<Rightarrow> (Some ''invalid response from UpdateLoadBalancerProtection API'', tr1)
              | Some b \<Rightarrow> (None, tr1))))"

text \<open>
  The closure that \<open>waitJobFinish\<close> polls: \<open>jobStatus\<close> issues the request and
  \<open>jobAnswer\<close> is what the closure returns for the response.
\<close>

definition jobAnswer :: "string \<Rightarrow> sdk_resp \<Rightarrow> bool \<times> error option" where
  "jobAnswer jobId r =
     (case snd r of
        Some m \<Rightarrow> (False, Some (''failed to get job status: '' @ m))
      | None \<Rightarrow>
          (case fst r of
             None \<Rightarrow> (False, Some ''invalid response from GetJobStatus API'')
           | Some b \<Rightarrow>
               (let status = StringValue (BodyStatus b) in
                if status = ''Succeeded'' then (True, None)
                else if status = ''Failed'' then (False, Some (''job '' @ jobId @ '' failed''))
                else (False, None))))"

definition jobStatus :: "env \<Rightarrow> string \<Rightarrow> event list \<Rightarrow> (bool \<times> error option) \<times> event list" where
  "jobStatus e jobId tr =
     (case sdk_call e tr (GetJobStatusRequest jobId) of (r, tr1) \<Rightarrow> (jobAnswer jobId r, tr1))"

definition waitJobFinish :: "env \<Rightarrow> event list \<Rightarrow> string \<Rightarrow> error option \<times> event list" where
  "waitJobFinish e tr jobId = PollImmediate (3 * Second) (3 * Minute) (jobStatus e jobId) tr"

text \<open>
  \<open>DeleteLoadBalancer\<close>, in the three parts of its body: the existence check
  (\<open>DeleteLoadBalancer\<close>), the disabling of the deletion protection
  (\<open>disableProtection\<close>), and the part from building the delete request to the end
  (\<open>issueDelete\<close>).
\<close>

definition issueDelete :: "env \<Rightarrow> event list \<Rightarrow> string \<Rightarrow> error option \<times> event list" where
  "issueDelete e tr lbId =
     (case sdk_call e tr (DeleteLoadBalancerRequest lbId) of ((resp, err), tr1) \<Rightarrow>
        (case err of
           Some m \<Rightarrow>
             (if Contains m ''ResourceNotFound'' then (None, tr1)
              else (Some (''failed to delete load balancer: '' @ m), tr1))
         | None \<Rightarrow>
             (case resp of
                None \<Rightarrow> (Some ''invalid response from DeleteLoadBalancer API'', tr1)
              | Some b \<Rightarrow>
                  (case BodyJobId b of
                     Some jobId \<Rightarrow> waitJobFinish e tr1 jobId
                   | None \<Rightarrow> (None, tr1)))))"

definition disableProtection :: "env \<Rightarrow> event list \<Rightarrow> string \<Rightarrow> error option \<times> event list" where
  "disableProtection e tr lbId =
     (case UpdateLoadBalancerProtection e tr lbId False [] of (protErr, tr1) \<Rightarrow>
        (case protErr of
           Some m \<Rightarrow>
             (if Contains m ''ResourceNotFound'' then (None, tr1)
              else issueDelete e
                     (tr1 @ [Warningf (''Failed to disable deletion protection (will try to delete anyway): '' @ m)])
                     lbId)
         | None \<Rightarrow> issueDelete e tr1 lbId))"

definition DeleteLoadBalancer :: "env \<Rightarrow> event list \<Rightarrow> string \<Rightarrow> error option \<times> event list" where
  "DeleteLoadBalancer e tr lbId =
     (case GetLoadBalancer e tr lbId of ((lb, err), tr1) \<Rightarrow>
        (case err of
           Some m \<Rightarrow>
             (if \<not> Contains m ''ResourceNotFound''
              then disableProtection e
                     (tr1 @ [Warningf (''Failed to check load balancer existence (will try to delete anyway): '' @ m)])
                     lbId
              else disableProtection e tr1 lbId)
         | None \<Rightarrow>
             (case lb of
                None \<Rightarrow> (None, tr1)
              | Some b \<Rightarrow> disableProtection e tr1 lbId)))"

definition JoinSecurityGroup :: "env \<Rightarrow> event list \<Rightarrow> string \<Rightarrow> string list \<Rightarrow> error option \<times> event list" where
  "JoinSecurityGroup e tr lbId securityGroupIds =
     (if length securityGroupIds = 0 then (None, tr)
      else
        (case sdk_call e tr (LoadBalancerJoinSecurityGroupRequest lbId securityGroupIds) of
           ((resp, err), tr1) \<Rightarrow>
             (case err of
                Some m \<Rightarrow> (Some (''failed to join security group: '' @ m), tr1)
              | None \<Rightarrow>
                  (case resp of
                     None \<Rightarrow> (Some ''invalid response from LoadBalancerJoinSecurityGroup API'', tr1)
                   | Some b \<Rightarrow>
                       (case BodyJobId b of
                          Some jobId \<Rightarrow> waitJobFinish e tr1 jobId
                        | None \<Rightarrow> (None, tr1))))))"

text \<open>
  \<open>CreateListener\<close>: the request is built from the load balancer id and the listener
  spec and is represented by the two.
\<close>

definition CreateListener :: "env \<Rightarrow> event list \<Rightarrow> string \<Rightarrow> ListenerSpec
    \<Rightarrow> (string \<times> error option) \<times> event list" where
  "CreateListener e tr lbId listener =
     (case sdk_call e tr (CreateListenerRequest lbId listener) of ((resp, err), tr1) \<Rightarrow>
        (case err of
           Some m \<Rightarrow> (([], Some (''failed to create listener: '' @ m)), tr1)
         | None \<Rightarrow>
             (case resp of
                None \<Rightarrow> (([], Some ''invalid response from CreateListener API''), tr1)
              | Some b \<Rightarrow>
                  (case BodyListenerId b of
                     None \<Rightarrow> (([], Some ''invalid response from CreateListener API''), tr1)
                   | Some listenerId \<Rightarrow> ((listenerId, None), tr1)))))"

definition DeleteListener :: "env \<Rightarrow> event list \<Rightarrow> string \<Rightarrow> error option \<times> event list" where
  "DeleteListener e tr listenerId =
     (case sdk_call e tr (DeleteListenerRequest listenerId) of ((resp, err), tr1) \<Rightarrow>
        (case err of
           Some m \<Rightarrow>
             (if Contains m ''ResourceNotFound'' then (None, tr1)
              else (Some (''failed to delete listener: '' @ m), tr1))
         | None \<Rightarrow>
             (case resp of
                None \<Rightarrow> (Some ''invalid response from DeleteListener API'', tr1)
              | Some b \<Rightarrow>
                  (case BodyJobId b of
                     Some jobId \<Rightarrow> waitJobFinish e tr1 jobId
                   | None \<Rightarrow> (None, tr1)))))"

text \<open>The closure that \<open>WaitLoadBalancerActive\<close> polls.\<close>

definition activeStatus :: "env \<Rightarrow> string \<Rightarrow> event list \<Rightarrow> (bool \<times> error option) \<times> event list" where
  "activeStatus e lbId tr =
     (case GetLoadBalancer e tr lbId of ((lb, err), tr1) \<Rightarrow>
        (case err of
           Some m \<Rightarrow> ((False, Some m), tr1)
         | None \<Rightarrow>
             (case lb of
                None \<Rightarrow> ((False, Some (''load balancer '' @ lbId @ '' not found'')), tr1)
              | Some b \<Rightarrow>
                  (if StringValue (BodyLoadBalancerStatus b) = ''Active'' then ((True, None), tr1)
                   else ((False, None), tr1)))))"

definition WaitLoadBalancerActive :: "env \<Rightarrow> event list \<Rightarrow> string \<Rightarrow> error option \<times> event list" where
  "WaitLoadBalancerActive e tr lbId = PollImmediate (10 * Second) (5 * Minute) (activeStatus e lbId) tr"

section \<open>The reconciler (controller)\<close>

definition NLBFinalizer :: string where
  "NLBFinalizer = ''nlboperator.alibabacloud.com/finalizer''"

definition ConditionTypeReady :: string where
  "ConditionTypeReady = ''Ready''"

definition ConditionTypeError :: string where
  "ConditionTypeError = ''Error''"

definition ReasonReconcileSuccess :: string where
  "ReasonReconcileSuccess = ''ReconcileSuccess''"

definition ReasonReconcileError :: string where
  "ReasonReconcileError = ''ReconcileError''"

definition ReasonDeletionSuccess :: string where
  "ReasonDeletionSuccess = ''DeletionSuccess''"

definition ReasonDeletionError :: string where
  "ReasonDeletionError = ''DeletionError''"

text \<open>
  A reconciliation either returns \<open>(ctrl.Result, error)\<close> or panics on a nil pointer.
\<close>

datatype fault = NilPointerDereference

type_synonym outcome = "fault + Result \<times> error option"

definition requeueAfter :: "Duration \<Rightarrow> Result" where
  "requeueAfter d = \<lparr>Requeue = False, RequeueAfter = d\<rparr>"

subsection \<open>updateCondition\<close>

text \<open>
  The loop of \<open>updateCondition\<close>: the first condition of the given type is overwritten
  and the loop breaks; the flag is \<open>found\<close>.
\<close>

fun replaceCondition :: "Condition list \<Rightarrow> string \<Rightarrow> Condition \<Rightarrow> Condition list \<times> bool" where
  "replaceCondition [] conditionType condition = ([], False)"
| "replaceCondition (c # cs) conditionType condition =
     (if Type c = conditionType then (condition # cs, True)
      else (case replaceCondition cs conditionType condition of
              (cs', found) \<Rightarrow> (c # cs', found)))"

definition setCondition :: "Condition list \<Rightarrow> Condition \<Rightarrow> Condition list" where
  "setCondition cs condition =
     (case replaceCondition cs (Type condition) condition of
        (cs', found) \<Rightarrow> if \<not> found then cs' @ [condition] else cs')"

definition updateCondition :: "env \<Rightarrow> event list \<Rightarrow> NLB \<Rightarrow> string \<Rightarrow> ConditionStatus \<Rightarrow> string \<Rightarrow> string \<Rightarrow> NLB" where
  "updateCondition e tr nlb conditionType status reason message =
     (let condition = \<lparr>Type = conditionType, Status = status, Reason = reason, Message = message,
                        LastTransitionTime = now e tr, ObservedGeneration = Generation nlb\<rparr>
      in nlb\<lparr>Status := (Status nlb)\<lparr>Conditions := setCondition (Conditions (Status nlb)) condition\<rparr>\<rparr>)"

subsection \<open>handleSecurityGroups, handleListeners\<close>

definition handleSecurityGroups :: "env \<Rightarrow> event list \<Rightarrow> NLB \<Rightarrow> error option \<times> event list" where
  "handleSecurityGroups e tr nlb =
     (if length (SecurityGroupIds (Spec nlb)) = 0 then (None, tr)
      else JoinSecurityGroup e tr (LoadBalancerId (Status nlb)) (SecurityGroupIds (Spec nlb)))"

text \<open>The map \<open>existingListeners\<close>: a later record of a port overwrites an earlier one.\<close>

definition existingListeners :: "ListenerStatus list \<Rightarrow> (int32 \<rightharpoonup> string)" where
  "existingListeners lss = fold (\<lambda>ls m. m(ListenerStatus.ListenerPort ls \<mapsto> ListenerId ls)) lss Map.empty"

text \<open>\<open>%d\<close> of \<open>fmt\<close>, for the port in the error text.\<close>

function decimal :: "nat \<Rightarrow> string" where
  "decimal n = (if n < 10 then [''0123456789'' ! n] else decimal (n div 10) @ [''0123456789'' ! (n mod 10)])"
  by pat_completeness auto
termination
  by (relation "measure id") auto

definition fmt_d :: "int32 \<Rightarrow> string" where
  "fmt_d p = (if sint p < 0 then ''-'' @ decimal (nat (- sint p)) else decimal (nat (sint p)))"

text \<open>
  The loop over \<open>nlb.Spec.Listeners\<close>; \<open>acc\<close> is \<open>newListenerStatus\<close>. On an error of
  \<open>CreateListener\<close> the function returns at once.
\<close>

fun listenersLoop :: "env \<Rightarrow> string \<Rightarrow> (int32 \<rightharpoonup> string) \<Rightarrow> ListenerSpec list \<Rightarrow> event list
    \<Rightarrow> ListenerStatus list \<Rightarrow> error option \<times> event list \<times> ListenerStatus list" where
  "listenersLoop e lbId existing [] tr acc = (None, tr, acc)"
| "listenersLoop e lbId existing (listenerSpec # rest) tr acc =
     (case existing (ListenerSpec.ListenerPort listenerSpec) of
        Some listenerId \<Rightarrow>
          listenersLoop e lbId existing rest tr
            (acc @ [\<lparr>ListenerPort = ListenerSpec.ListenerPort listenerSpec, ListenerId = listenerId,
                      Status = ''Active''\<rparr>])
      | None \<Rightarrow>
          (case CreateListener e tr lbId listenerSpec of
             ((_, Some err), tr1) \<Rightarrow>
               (Some (''failed to create listener on port '' @ fmt_d (ListenerSpec.ListenerPort listenerSpec)
                        @ '': '' @ err), tr1, acc)
           | ((listenerId, None), tr1) \<Rightarrow>
               listenersLoop e lbId existing rest tr1
                 (acc @ [\<lparr>ListenerPort = ListenerSpec.ListenerPort listenerSpec, ListenerId = listenerId,
                           Status = ''Active''\<rparr>])))"

definition handleListeners :: "env \<Rightarrow> event list \<Rightarrow> NLB \<Rightarrow> error option \<times> event list \<times> NLB" where
  "handleListeners e tr nlb =
     (case listenersLoop e (LoadBalancerId (Status nlb))
             (existingListeners (ListenerStatus (Status nlb))) (Listeners (Spec nlb)) tr [] of
        (Some err, tr1, _) \<Rightarrow> (Some err, tr1, nlb)
      | (None, tr1, newListenerStatus) \<Rightarrow>
          (None, tr1, nlb\<lparr>Status := (Status nlb)\<lparr>ListenerStatus := newListenerStatus\<rparr>\<rparr>))"

subsection \<open>handleCreateOrUpdate\<close>

text \<open>
  The two assignments \<open>nlb.Status.DNSName = *lb.DNSName\<close> and
  \<open>nlb.Status.LoadBalancerStatus = *lb.LoadBalancerStatus\<close>: a nil \<open>lb\<close> or a nil field
  is a nil pointer dereference. The object is returned as it is at that point.
\<close>

definition setAttributes :: "NLB \<Rightarrow> Body option \<Rightarrow> fault option \<times> NLB" where
  "setAttributes nlb lb =
     (case lb of
        None \<Rightarrow> (Some NilPointerDereference, nlb)
      | Some b \<Rightarrow>
          (case BodyDNSName b of
             None \<Rightarrow> (Some NilPointerDereference, nlb)
           | Some dns \<Rightarrow>
               (let nlb1 = nlb\<lparr>Status := (Status nlb)\<lparr>DNSName := dns\<rparr>\<rparr> in
                case BodyLoadBalancerStatus b of
                  None \<Rightarrow> (Some NilPointerDereference, nlb1)
                | Some st \<Rightarrow> (None, nlb1\<lparr>Status := (Status nlb1)\<lparr>LoadBalancerStatus := st\<rparr>\<rparr>))))"

text \<open>
  The part of \<open>handleCreateOrUpdate\<close> after the \<open>if\<close>: security groups, listeners,
  the Ready condition, the status update.
\<close>

definition reconcilePresent :: "env \<Rightarrow> event list \<Rightarrow> NLB \<Rightarrow> outcome \<times> event list \<times> NLB" where
  "reconcilePresent e tr nlb =
     (case handleSecurityGroups e tr nlb of
        (Some err, tr1) \<Rightarrow>
          (Inr (requeueAfter (30 * Second), Some err),
           tr1 @ [RecorderEvent ''Warning'' ReasonReconcileError (''Failed to handle security groups: '' @ err)],
           nlb)
      | (None, tr1) \<Rightarrow>
          (case handleListeners e tr1 nlb of
             (Some err, tr2, nlb2) \<Rightarrow>
               (Inr (requeueAfter (30 * Second), Some err),
                tr2 @ [RecorderEvent ''Warning'' ReasonReconcileError (''Failed to handle listeners: '' @ err)],
                nlb2)
           | (None, tr2, nlb2) \<Rightarrow>
               (let nlb3 = updateCondition e tr2 nlb2 ConditionTypeReady ConditionTrue ReasonReconcileSuccess
                             ''NLB reconciled successfully'' in
                case k8s_call e tr2 (StatusUpdate nlb3) of
                  (Some err, tr3) \<Rightarrow> (Inr (Result_empty, Some err), tr3, nlb3)
                | (None, tr3) \<Rightarrow>
                    (Inr (requeueAfter (5 * Minute), None),
                     tr3 @ [RecorderEvent ''Normal'' ReasonReconcileSuccess ''Successfully reconciled NLB''],
                     nlb3))))"

text \<open>The branch \<open>nlb.Status.LoadBalancerId == ""\<close>: create, wait, fetch.\<close>

definition createBranch :: "env \<Rightarrow> event list \<Rightarrow> NLB \<Rightarrow> outcome \<times> event list \<times> NLB" where
  "createBranch e tr nlb =
     (case CreateLoadBalancer e tr nlb of
        ((_, Some err), tr1) \<Rightarrow>
          (let tr2 = tr1 @ [RecorderEvent ''Warning'' ReasonReconcileError (''Failed to create NLB: '' @ err)] in
           (Inr (requeueAfter (30 * Second), Some err), tr2,
            updateCondition e tr2 nlb ConditionTypeError ConditionTrue ReasonReconcileError err))
      | ((lbId, None), tr1) \<Rightarrow>
          (let nlb1 = nlb\<lparr>Status := (Status nlb)\<lparr>LoadBalancerId := lbId, LoadBalancerStatus := ''Provisioning''\<rparr>\<rparr>;
               nlb2 = updateCondition e tr1 nlb1 ConditionTypeReady ConditionFalse ''Provisioning''
                        ''NLB instance is being created'' in
           case k8s_call e tr1 (StatusUpdate nlb2) of
             (Some err, tr2) \<Rightarrow> (Inr (Result_empty, Some err), tr2, nlb2)
           | (None, tr2) \<Rightarrow>
               (case WaitLoadBalancerActive e tr2 lbId of
                  (Some err, tr3) \<Rightarrow>
                    (Inr (requeueAfter (30 * Second), Some err),
                     tr3 @ [RecorderEvent ''Warning'' ReasonReconcileError
                              (''Failed to wait for NLB to be active: '' @ err)],
                     nlb2)
                | (None, tr3) \<Rightarrow>
                    (case GetLoadBalancer e tr3 lbId of
                       ((_, Some err), tr4) \<Rightarrow> (Inr (requeueAfter (30 * Second), Some err), tr4, nlb2)
                     | ((lb, None), tr4) \<Rightarrow>
                         (case setAttributes nlb2 lb of
                            (Some f, nlb3) \<Rightarrow> (Inl f, tr4, nlb3)
                          | (None, nlb3) \<Rightarrow>
                              reconcilePresent e
                                (tr4 @ [RecorderEvent ''Normal'' ReasonReconcileSuccess
                                          (''Successfully created NLB: '' @ lbId)])
                                nlb3)))))"

text \<open>The \<open>else\<close> branch: verify that the recorded load balancer still exists.\<close>

definition verifyBranch :: "env \<Rightarrow> event list \<Rightarrow> NLB \<Rightarrow> outcome \<times> event list \<times> NLB" where
  "verifyBranch e tr nlb =
     (case GetLoadBalancer e tr (LoadBalancerId (Status nlb)) of ((lb, err), tr1) \<Rightarrow>
        (case err of
           Some m \<Rightarrow>
             (let tr2 = tr1 @ [RecorderEvent ''Warning'' ReasonReconcileError (''Failed to get NLB: '' @ m)] in
              (Inr (requeueAfter (30 * Second), Some m), tr2,
               updateCondition e tr2 nlb ConditionTypeError ConditionTrue ReasonReconcileError m))
         | None \<Rightarrow>
             (case lb of
                None \<Rightarrow>
                  (let nlb1 = nlb\<lparr>Status := (Status nlb)\<lparr>LoadBalancerId := [], DNSName := [],
                                                          LoadBalancerStatus := []\<rparr>\<rparr> in
                   case k8s_call e tr1 (StatusUpdate nlb1) of
                     (Some m, tr2) \<Rightarrow> (Inr (Result_empty, Some m), tr2, nlb1)
                   | (None, tr2) \<Rightarrow> (Inr (\<lparr>Requeue = True, RequeueAfter = 0\<rparr>, None), tr2, nlb1))
              | Some b \<Rightarrow>
                  (case setAttributes nlb lb of
                     (Some f, nlb1) \<Rightarrow> (Inl f, tr1, nlb1)
                   | (None, nlb1) \<Rightarrow> reconcilePresent e tr1 nlb1))))"

definition handleCreateOrUpdate :: "env \<Rightarrow> event list \<Rightarrow> NLB \<Rightarrow> outcome \<times> event list \<times> NLB" where
  "handleCreateOrUpdate e tr nlb =
     (if LoadBalancerId (Status nlb) = [] then createBranch e tr nlb else verifyBranch e tr nlb)"

subsection \<open>handleDeletion\<close>

definition ContainsFinalizer :: "NLB \<Rightarrow> string \<Rightarrow> bool" where
  "ContainsFinalizer nlb f = (f \<in> set (Finalizers nlb))"

definition AddFinalizer :: "NLB \<Rightarrow> string \<Rightarrow> NLB" where
  "AddFinalizer nlb f = (if f \<in> set (Finalizers nlb) then nlb else nlb\<lparr>Finalizers := Finalizers nlb @ [f]\<rparr>)"

definition RemoveFinalizer :: "NLB \<Rightarrow> string \<Rightarrow> NLB" where
  "RemoveFinalizer nlb f = nlb\<lparr>Finalizers := filter (\<lambda>x. x \<noteq> f) (Finalizers nlb)\<rparr>"

text \<open>
  The loop \<open>Delete listeners first\<close>: records with an empty id are skipped; the first
  failing delete emits the warning event and ends the reconciliation.
\<close>

fun deleteListeners :: "env \<Rightarrow> event list \<Rightarrow> ListenerStatus list \<Rightarrow> error option \<times> event list" where
  "deleteListeners e tr [] = (None, tr)"
| "deleteListeners e tr (listener # rest) =
     (if ListenerId listener \<noteq> [] then
        (case DeleteListener e tr (ListenerId listener) of
           (Some err, tr1) \<Rightarrow>
             (Some err, tr1 @ [RecorderEvent ''Warning'' ReasonDeletionError (''Failed to delete listener: '' @ err)])
         | (None, tr1) \<Rightarrow> deleteListeners e tr1 rest)
      else deleteListeners e tr rest)"

text \<open>The block \<open>Update status to show deletion is in progress\<close>; its update may fail.\<close>

definition markDeleting :: "env \<Rightarrow> event list \<Rightarrow> NLB \<Rightarrow> event list \<times> NLB" where
  "markDeleting e tr nlb =
     (if LoadBalancerStatus (Status nlb) \<noteq> ''Deleting'' then
        (let nlb1 = updateCondition e tr (nlb\<lparr>Status := (Status nlb)\<lparr>LoadBalancerStatus := ''Deleting''\<rparr>\<rparr>)
                      ConditionTypeReady ConditionFalse ''Deleting'' ''NLB is being deleted'' in
         (snd (k8s_call e tr (StatusUpdate nlb1)), nlb1))
      else (tr, nlb))"

text \<open>The block \<open>Remove finalizer\<close>.\<close>

definition removeFinalizer :: "env \<Rightarrow> event list \<Rightarrow> NLB \<Rightarrow> outcome \<times> event list \<times> NLB" where
  "removeFinalizer e tr nlb =
     (let nlb1 = RemoveFinalizer nlb NLBFinalizer in
      case k8s_call e tr (Update nlb1) of
        (Some err, tr1) \<Rightarrow> (Inr (Result_empty, Some err), tr1, nlb1)
      | (None, tr1) \<Rightarrow> (Inr (Result_empty, None), tr1, nlb1))"

definition handleDeletion :: "env \<Rightarrow> event list \<Rightarrow> NLB \<Rightarrow> outcome \<times> event list \<times> NLB" where
  "handleDeletion e tr nlb =
     (if \<not> ContainsFinalizer nlb NLBFinalizer then (Inr (Result_empty, None), tr, nlb)
      else
        (case markDeleting e tr nlb of (tr1, nlb1) \<Rightarrow>
           (case deleteListeners e tr1 (ListenerStatus (Status nlb1)) of
              (Some err, tr2) \<Rightarrow> (Inr (requeueAfter (30 * Second), Some err), tr2, nlb1)
            | (None, tr2) \<Rightarrow>
                (if LoadBalancerId (Status nlb1) \<noteq> [] then
                   (case DeleteLoadBalancer e tr2 (LoadBalancerId (Status nlb1)) of
                      (Some err, tr3) \<Rightarrow>
                        (Inr (requeueAfter (30 * Second), Some err),
                         tr3 @ [RecorderEvent ''Warning'' ReasonDeletionError (''Failed to delete NLB: '' @ err)],
                         nlb1)
                    | (None, tr3) \<Rightarrow>
                        removeFinalizer e
                          (tr3 @ [RecorderEvent ''Normal'' ReasonDeletionSuccess
                                    (''Successfully deleted NLB: '' @ LoadBalancerId (Status nlb1))])
                          nlb1)
                 else removeFinalizer e tr2 nlb1))))"

subsection \<open>Reconcile\<close>

text \<open>\<open>DeletionTimestamp.IsZero()\<close>: a nil pointer or the zero time, which is \<open>0\<close> here.\<close>

definition IsZero :: "Time option \<Rightarrow> bool" where
  "IsZero t = (case t of None \<Rightarrow> True | Some x \<Rightarrow> x = 0)"

definition Reconcile :: "env \<Rightarrow> event list \<Rightarrow> string \<Rightarrow> outcome \<times> event list \<times> NLB option" where
  "Reconcile e tr req =
     (let r = k8s_get e tr req; tr1 = tr @ [K8sGet req r] in
      case r of
        GetError notFound err \<Rightarrow>
          (if notFound then (Inr (Result_empty, None), tr1, None)
           else (Inr (Result_empty, Some err), tr1, None))
      | Found nlb \<Rightarrow>
          (if \<not> IsZero (DeletionTimestamp nlb) then
             (case handleDeletion e tr1 nlb of (res, tr2, nlb') \<Rightarrow> (res, tr2, Some nlb'))
           else if \<not> ContainsFinalizer nlb NLBFinalizer then
             (let nlb1 = AddFinalizer nlb NLBFinalizer in
              case k8s_call e tr1 (Update nlb1) of
                (Some err, tr2) \<Rightarrow> (Inr (Result_empty, Some err), tr2, Some nlb1)
              | (None, tr2) \<Rightarrow>
                  (case handleCreateOrUpdate e tr2 nlb1 of (res, tr3, nlb') \<Rightarrow> (res, tr3, Some nlb')))
           else
             (case handleCreateOrUpdate e tr1 nlb of (res, tr2, nlb') \<Rightarrow> (res, tr2, Some nlb'))))"

section \<open>Concrete inputs\<close>

definition example_conditions :: "Condition list" where
  "example_conditions =
     [\<lparr>Type = ''Ready'', Status = ConditionFalse, Reason = ''Provisioning'',
       Message = ''NLB instance is being created'', LastTransitionTime = 1, ObservedGeneration = 1\<rparr>,
      \<lparr>Type = ''Error'', Status = ConditionTrue, Reason = ''ReconcileError'',
       Message = ''boom'', LastTransitionTime = 2, ObservedGeneration = 1\<rparr>]"

definition example_env :: env where
  "example_env = \<lparr>sdk = (\<lambda>tr req. (None, Some ''Throttling'')), k8s = (\<lambda>tr req. None),
     k8s_get = (\<lambda>tr name. GetError True ''not found''), now = (\<lambda>tr. int (length tr))\<rparr>"

definition example_nlb :: NLB where
  "example_nlb = \<lparr>Generation = 1, DeletionTimestamp = None, Finalizers = [NLBFinalizer],
     Spec = \<lparr>LoadBalancerName = ''lb'', AddressType = ''Internet'', AddressIpVersion = [], VpcId = ''vpc-1'',
              ResourceGroupId = [], SecurityGroupIds = [], BandwidthPackageId = [], Listeners = []\<rparr>,
     Status = \<lparr>LoadBalancerId = ''nlb-1'', DNSName = ''nlb-1.example.com'', LoadBalancerStatus = ''Active'',
                Conditions = example_conditions, ListenerStatus = []\<rparr>\<rparr>"

text \<open>
  The shape of a polling loop's trace: the given events with a pause of \<open>d\<close> between
  any two of them.
\<close>


fun paced :: "Duration \<Rightarrow> event list \<Rightarrow> event list" where
  "paced d [] = []"
| "paced d [x] = [x]"
| "paced d (x # y # ys) = x # Sleep d # paced d (y # ys)"

text \<open>
  What \<open>WaitLoadBalancerActive\<close> makes of one answer to its request: the reading of
  \<open>GetLoadBalancer\<close> followed by the closure's.
\<close>


definition activeAnswer :: "string \<Rightarrow> sdk_resp \<Rightarrow> bool \<times> error option" where
  "activeAnswer lbId r =
     (case snd r of
        Some m \<Rightarrow>
          (if Contains m ''ResourceNotFound'' then (False, Some (''load balancer '' @ lbId @ '' not found''))
           else (False, Some (''failed to get load balancer: '' @ m)))
      | None \<Rightarrow>
          (case fst r of
             None \<Rightarrow> (False, Some ''invalid response from GetLoadBalancerAttribute API'')
           | Some b \<Rightarrow>
               (if StringValue (BodyLoadBalancerStatus b) = ''Active'' then (True, None) else (False, None))))"

text \<open>
  The result of a polling loop with \<open>n\<close> pauses to spend, read off the last answer.
\<close>


definition poll_result :: "(sdk_resp \<Rightarrow> bool \<times> error option) \<Rightarrow> nat \<Rightarrow> sdk_resp list \<Rightarrow> error option \<Rightarrow> bool" where
  "poll_result V n resps r =
     (case snd (V (last resps)) of
        Some m \<Rightarrow> r = Some m
      | None \<Rightarrow>
          (if fst (V (last resps)) then r = None
           else r = Some ErrWaitTimeout \<and> length resps = Suc n))"

text \<open>An environment in which every SDK call fails with a throttling error.\<close>


definition env_throttled :: env where
  "env_throttled = \<lparr>sdk = (\<lambda>tr req. (None, Some ''Throttling'')), k8s = (\<lambda>tr req. None),
     k8s_get = (\<lambda>tr name. GetError True ''not found''), now = (\<lambda>tr. int (length tr))\<rparr>"

definition Body_empty :: Body where
  "Body_empty = \<lparr>BodyLoadbalancerId = None, BodyListenerId = None, BodyJobId = None, BodyStatus = None,
     BodyDNSName = None, BodyLoadBalancerStatus = None\<rparr>"

text \<open>
  An environment whose jobs are still running at the first two polls and have succeeded
  at the third, and whose load balancer is active.
\<close>


definition env_slow_job :: env where
  "env_slow_job =
     \<lparr>sdk = (\<lambda>tr req.
         (case req of
            GetJobStatusRequest j \<Rightarrow>
              (Some (Body_empty\<lparr>BodyStatus := Some (if length tr < 4 then ''Processing'' else ''Succeeded'')\<rparr>), None)
          | _ \<Rightarrow> (Some (Body_empty\<lparr>BodyDNSName := Some ''nlb-1.example.com'',
                                   BodyLoadBalancerStatus := Some ''Active''\<rparr>), None))),
      k8s = (\<lambda>tr req. None),
      k8s_get = (\<lambda>tr name. GetError True ''not found''),
      now = (\<lambda>tr. int (length tr))\<rparr>"

text \<open>The events of a job waiter: status requests and pauses.\<close>


fun is_job_event :: "event \<Rightarrow> bool" where
  "is_job_event (Sdk (GetJobStatusRequest j) r) = True"
| "is_job_event (Sleep d) = True"
| "is_job_event ev = False"

text \<open>
  An SDK response reports NotFound when its error text contains \<open>ResourceNotFound\<close>,
  which is how every method of the client recognises it.
\<close>


definition NotFound :: "sdk_resp \<Rightarrow> bool" where
  "NotFound r = (case snd r of Some m \<Rightarrow> Contains m ''ResourceNotFound'' | None \<Rightarrow> False)"

text \<open>
  The warnings \<open>DeleteLoadBalancer\<close> logs: after an existence check that failed, and
  after a failure to disable the deletion protection.
\<close>


definition checkWarning :: "sdk_resp \<Rightarrow> event list" where
  "checkWarning g =
     (case snd g of
        Some m \<Rightarrow>
          [Warningf (''Failed to check load balancer existence (will try to delete anyway): ''
                      @ ''failed to get load balancer: '' @ m)]
      | None \<Rightarrow>
          (case fst g of
             None \<Rightarrow>
               [Warningf (''Failed to check load balancer existence (will try to delete anyway): ''
                           @ ''invalid response from GetLoadBalancerAttribute API'')]
           | Some b \<Rightarrow> []))"

definition protectionWarning :: "sdk_resp \<Rightarrow> event list" where
  "protectionWarning p =
     (case snd p of
        Some m \<Rightarrow>
          [Warningf (''Failed to disable deletion protection (will try to delete anyway): ''
                      @ ''failed to update load balancer protection: '' @ m)]
      | None \<Rightarrow>
          (case fst p of
             None \<Rightarrow>
               [Warningf (''Failed to disable deletion protection (will try to delete anyway): ''
                           @ ''invalid response from UpdateLoadBalancerProtection API'')]
           | Some b \<Rightarrow> []))"

text \<open>An environment in which every SDK call reports that the resource is gone.\<close>


definition env_gone :: env where
  "env_gone = \<lparr>sdk = (\<lambda>tr req. (None, Some ''ResourceNotFound.loadBalancer'')), k8s = (\<lambda>tr req. None),
     k8s_get = (\<lambda>tr name. GetError True ''not found''), now = (\<lambda>tr. int (length tr))\<rparr>"

text \<open>
  An environment in which disabling the deletion protection is throttled and every
  other call succeeds, with no job to wait for.
\<close>


definition env_protection_fails :: env where
  "env_protection_fails =
     \<lparr>sdk = (\<lambda>tr req.
         (case req of
            UpdateLoadBalancerProtectionRequest l en reason \<Rightarrow> (None, Some ''Throttling'')
          | _ \<Rightarrow> (Some (Body_empty\<lparr>BodyDNSName := Some ''nlb-1.example.com'',
                                   BodyLoadBalancerStatus := Some ''Active''\<rparr>), None))),
      k8s = (\<lambda>tr req. None),
      k8s_get = (\<lambda>tr name. GetError True ''not found''),
      now = (\<lambda>tr. int (length tr))\<rparr>"

text \<open>The attributes of an active load balancer.\<close>


definition active_body :: Body where
  "active_body = Body_empty\<lparr>BodyDNSName := Some ''nlb-1.example.com'', BodyLoadBalancerStatus := Some ''Active''\<rparr>"

text \<open>A resource with a recorded load balancer and one security group to join.\<close>


definition example_spec :: NLBSpec where
  "example_spec = \<lparr>LoadBalancerName = ''lb'', AddressType = ''Internet'', AddressIpVersion = [],
     VpcId = ''vpc-1'', ResourceGroupId = [], SecurityGroupIds = [''sg-1''], BandwidthPackageId = [],
     Listeners = []\<rparr>"

definition nlb_with_groups :: NLB where
  "nlb_with_groups = \<lparr>Generation = 1, DeletionTimestamp = None, Finalizers = [NLBFinalizer],
     Spec = example_spec,
     Status = \<lparr>LoadBalancerId = ''nlb-1'', DNSName = ''nlb-1.example.com'', LoadBalancerStatus = ''Active'',
                Conditions = [], ListenerStatus = []\<rparr>\<rparr>"

text \<open>An environment in which joining a security group is throttled.\<close>


definition env_join_fails :: env where
  "env_join_fails =
     \<lparr>sdk = (\<lambda>tr req.
         (case req of
            LoadBalancerJoinSecurityGroupRequest l gs \<Rightarrow> (None, Some ''Throttling'')
          | _ \<Rightarrow> (Some active_body, None))),
      k8s = (\<lambda>tr req. None),
      k8s_get = (\<lambda>tr name. GetError True ''not found''),
      now = (\<lambda>tr. int (length tr))\<rparr>"

text \<open>A resource for which no load balancer has been created yet.\<close>

definition nlb_new :: NLB where
  "nlb_new = nlb_with_groups\<lparr>Status := \<lparr>LoadBalancerId = [], DNSName = [], LoadBalancerStatus = [],
     Conditions = [], ListenerStatus = []\<rparr>\<rparr>"

text \<open>The SDK requests of a trace, in order.\<close>


fun sdk_requests :: "event list \<Rightarrow> sdk_req list" where
  "sdk_requests [] = []"
| "sdk_requests (Sdk req r # evs) = req # sdk_requests evs"
| "sdk_requests (ev # evs) = sdk_requests evs"

text \<open>
  What the listener reconciliation records for a desired listener: a record of its port
  with status Active, carrying the id the current status has for the port, or else an id that a
  \<open>CreateListener\<close> request for this listener returned in the events \<open>new\<close>.
\<close>


definition listener_record :: "string \<Rightarrow> (int32 \<rightharpoonup> string) \<Rightarrow> event list \<Rightarrow> ListenerSpec \<Rightarrow> ListenerStatus \<Rightarrow> bool" where
  "listener_record lb existing new l s =
     (s = \<lparr>ListenerPort = ListenerSpec.ListenerPort l, ListenerId = ListenerId s, Status = ''Active''\<rparr>
      \<and> (case existing (ListenerSpec.ListenerPort l) of
            Some i \<Rightarrow> ListenerId s = i
          | None \<Rightarrow> (\<exists>b. Sdk (CreateListenerRequest lb l) (Some b, None) \<in> set new
                         \<and> BodyListenerId b = Some (ListenerId s))))"

text \<open>
  The inputs of the spec's listener examples: desired ports 80 and 443 with a current
  record for 80, and desired port 80 with current records for 80 and 443; a provider
  that creates what it is asked to.
\<close>


definition listener_tcp :: "int32 \<Rightarrow> ListenerSpec" where
  "listener_tcp p = \<lparr>ListenerProtocol = ''TCP'', ListenerPort = p, ServerGroupId = ''sgp-1'',
     ListenerDescription = [], IdleTimeout = 0, SecurityPolicyId = [], CertificateIds = [],
     CaCertificateIds = [], CaEnabled = None, ProxyProtocolEnabled = None\<rparr>"

definition nlb_two_listeners :: NLB where
  "nlb_two_listeners = \<lparr>Generation = 1, DeletionTimestamp = None, Finalizers = [NLBFinalizer],
     Spec = example_spec\<lparr>SecurityGroupIds := [], Listeners := [listener_tcp 80, listener_tcp 443]\<rparr>,
     Status = \<lparr>LoadBalancerId = ''nlb-1'', DNSName = ''nlb-1.example.com'', LoadBalancerStatus = ''Active'',
                Conditions = [],
                ListenerStatus = [\<lparr>ListenerPort = 80, ListenerId = ''lsn-1'', Status = ''Active''\<rparr>]\<rparr>\<rparr>"

definition nlb_one_listener :: NLB where
  "nlb_one_listener = \<lparr>Generation = 1, DeletionTimestamp = None, Finalizers = [NLBFinalizer],
     Spec = example_spec\<lparr>SecurityGroupIds := [], Listeners := [listener_tcp 80]\<rparr>,
     Status = \<lparr>LoadBalancerId = ''nlb-1'', DNSName = ''nlb-1.example.com'', LoadBalancerStatus = ''Active'',
                Conditions = [],
                ListenerStatus = [\<lparr>ListenerPort = 80, ListenerId = ''lsn-1'', Status = ''Active''\<rparr>,
                                  \<lparr>ListenerPort = 443, ListenerId = ''lsn-2'', Status = ''Active''\<rparr>]\<rparr>\<rparr>"

definition env_creates :: env where
  "env_creates =
     \<lparr>sdk = (\<lambda>tr req.
         (case req of
            CreateListenerRequest l spec \<Rightarrow> (Some (Body_empty\<lparr>BodyListenerId := Some ''lsn-2''\<rparr>), None)
          | CreateLoadBalancerRequest spec \<Rightarrow> (Some (Body_empty\<lparr>BodyLoadbalancerId := Some ''nlb-2''\<rparr>), None)
          | _ \<Rightarrow> (Some active_body, None))),
      k8s = (\<lambda>tr req. None),
      k8s_get = (\<lambda>tr name. GetError True ''not found''),
      now = (\<lambda>tr. int (length tr))\<rparr>"

text \<open>
  The kinds of events, by the call that produces them.
\<close>

datatype kind = CreateLB | DeleteLB | GetLB | Protect | JoinSG | CreateLsn | DeleteLsn | JobPoll
  | Pause | StatusWrite | ObjectWrite | ObjectRead | Recorded | Logged

fun kind_of :: "event \<Rightarrow> kind" where
  "kind_of (Sdk (CreateLoadBalancerRequest s) r) = CreateLB"
| "kind_of (Sdk (DeleteLoadBalancerRequest l) r) = DeleteLB"
| "kind_of (Sdk (GetLoadBalancerAttributeRequest l) r) = GetLB"
| "kind_of (Sdk (UpdateLoadBalancerProtectionRequest l en reason) r) = Protect"
| "kind_of (Sdk (LoadBalancerJoinSecurityGroupRequest l gs) r) = JoinSG"
| "kind_of (Sdk (CreateListenerRequest l s) r) = CreateLsn"
| "kind_of (Sdk (DeleteListenerRequest i) r) = DeleteLsn"
| "kind_of (Sdk (GetJobStatusRequest j) r) = JobPoll"
| "kind_of (K8s (StatusUpdate x) r) = StatusWrite"
| "kind_of (K8s (Update x) r) = ObjectWrite"
| "kind_of (K8sGet n r) = ObjectRead"
| "kind_of (RecorderEvent t r m) = Recorded"
| "kind_of (Warningf m) = Logged"
| "kind_of (Sleep d) = Pause"

text \<open>
  \<open>emits K tr tr'\<close>: the trace \<open>tr'\<close> extends \<open>tr\<close> by events of the kinds \<open>K\<close>.
\<close>

definition emits :: "kind set \<Rightarrow> event list \<Rightarrow> event list \<Rightarrow> bool" where
  "emits K tr tr' = (\<exists>ex. tr' = tr @ ex \<and> (\<forall>ev\<in>set ex. kind_of ev \<in> K))"

text \<open>
  The listener ids of the \<open>DeleteListener\<close> requests of a trace, in order.
\<close>

fun listener_deletes :: "event list \<Rightarrow> string list" where
  "listener_deletes [] = []"
| "listener_deletes (Sdk (DeleteListenerRequest i) r # evs) = i # listener_deletes evs"
| "listener_deletes (ev # evs) = listener_deletes evs"

text \<open>
  The listeners recorded in status that the teardown deletes: the ids of the status
  records, in listed order; a record with an empty id names no listener.
\<close>

definition recorded_listeners :: "NLB \<Rightarrow> string list" where
  "recorded_listeners nlb = filter (\<lambda>i. i \<noteq> []) (map ListenerId (ListenerStatus (Status nlb)))"

text \<open>
  What a failed teardown returns: a requeue after 30 seconds with the error, the
  finalizers as they were, and no update of the object among the events of the pass.
\<close>

definition teardown_failed :: "event list \<Rightarrow> NLB \<Rightarrow> outcome \<times> event list \<times> NLB \<Rightarrow> error \<Rightarrow> bool" where
  "teardown_failed tr nlb run err =
     (fst run = Inr (requeueAfter (30 * Second), Some err)
      \<and> Finalizers (snd (snd run)) = Finalizers nlb
      \<and> (\<forall>ev\<in>set (drop (length tr) (fst (snd run))). kind_of ev \<noteq> ObjectWrite))"

text \<open>
  Within the trace \<open>s\<close>, after \<open>tr\<close>, a call of \<open>DeleteListener\<close> has returned
  success for every recorded listener; likewise for the load balancer, if one is recorded.
\<close>

definition listeners_deleted :: "env \<Rightarrow> event list \<Rightarrow> event list \<Rightarrow> NLB \<Rightarrow> bool" where
  "listeners_deleted e tr s nlb =
     (\<forall>i\<in>set (recorded_listeners nlb). \<exists>a b. prefix tr a \<and> prefix b s \<and> DeleteListener e a i = (None, b))"

definition load_balancer_deleted :: "env \<Rightarrow> event list \<Rightarrow> event list \<Rightarrow> NLB \<Rightarrow> bool" where
  "load_balancer_deleted e tr s nlb =
     (LoadBalancerId (Status nlb) \<noteq> [] \<longrightarrow>
        (\<exists>a b. prefix tr a \<and> prefix b s \<and> DeleteLoadBalancer e a (LoadBalancerId (Status nlb)) = (None, b)))"

text \<open>
  A provider on which deleting the load balancer is throttled, and which reports a
  listener as not found once a delete of it was requested; a resource under deletion
  with one listener; two Terminating passes on it, the second starting from what the
  first left.
\<close>

fun deletes_listener :: "string \<Rightarrow> event \<Rightarrow> bool" where
  "deletes_listener i (Sdk (DeleteListenerRequest j) r) = (i = j)"
| "deletes_listener i ev = False"

definition env_delete_stalls :: env where
  "env_delete_stalls =
     \<lparr>sdk = (\<lambda>tr req.
         (case req of
            DeleteLoadBalancerRequest l \<Rightarrow> (None, Some ''Throttling'')
          | DeleteListenerRequest i \<Rightarrow>
              (if list_ex (deletes_listener i) tr then (None, Some ''ResourceNotFound.listener'')
               else (Some Body_empty, None))
          | _ \<Rightarrow> (Some active_body, None))),
      k8s = (\<lambda>tr req. None),
      k8s_get = (\<lambda>tr name. GetError True ''not found''),
      now = (\<lambda>tr. int (length tr))\<rparr>"

definition nlb_deleting :: NLB where
  "nlb_deleting = \<lparr>Generation = 1, DeletionTimestamp = Some 1, Finalizers = [NLBFinalizer],
     Spec = example_spec,
     Status = \<lparr>LoadBalancerId = ''nlb-1'', DNSName = ''nlb-1.example.com'', LoadBalancerStatus = ''Deleting'',
                Conditions = [],
                ListenerStatus = [\<lparr>ListenerPort = 80, ListenerId = ''lsn-1'', Status = ''Active''\<rparr>]\<rparr>\<rparr>"

definition first_pass :: "outcome \<times> event list \<times> NLB" where
  "first_pass = handleDeletion env_delete_stalls [] nlb_deleting"

definition second_pass :: "outcome \<times> event list \<times> NLB" where
  "second_pass = handleDeletion env_delete_stalls (fst (snd first_pass)) (snd (snd first_pass))"

section \<open>Verified properties\<close>

subsection \<open>The condition ledger\<close>

lemma replaceCondition_absent:
  "t \<notin> Type ` set cs \<Longrightarrow> replaceCondition cs t c = (cs, False)"
  by (induction cs) auto

lemma replaceCondition_present:
  "t \<in> Type ` set cs \<Longrightarrow>
   \<exists>pre x post. cs = pre @ x # post \<and> Type x = t \<and> t \<notin> Type ` set pre
      \<and> replaceCondition cs t c = (pre @ c # post, True)"
proof (induction cs)
  case Nil
  then show ?case by simp
next
  case (Cons a cs)
  show ?case
  proof (cases "Type a = t")
    case True
    then have "a # cs = [] @ a # cs \<and> Type a = t \<and> t \<notin> Type ` set []
        \<and> replaceCondition (a # cs) t c = ([] @ c # cs, True)"
      by simp
    then show ?thesis by blast
  next
    case False
    with Cons.prems have "t \<in> Type ` set cs" by auto
    from Cons.IH [OF this] obtain pre x post where
      h: "cs = pre @ x # post" "Type x = t" "t \<notin> Type ` set pre"
         "replaceCondition cs t c = (pre @ c # post, True)"
      by blast
    from h False have "a # cs = (a # pre) @ x # post \<and> Type x = t \<and> t \<notin> Type ` set (a # pre)
        \<and> replaceCondition (a # cs) t c = ((a # pre) @ c # post, True)"
      by auto
    then show ?thesis by blast
  qed
qed

lemma setCondition_absent:
  "Type c \<notin> Type ` set cs \<Longrightarrow> setCondition cs c = cs @ [c]"
  by (simp add: setCondition_def replaceCondition_absent)

lemma setCondition_present:
  "Type c \<in> Type ` set cs \<Longrightarrow>
   \<exists>pre x post. cs = pre @ x # post \<and> Type x = Type c \<and> Type c \<notin> Type ` set pre
      \<and> setCondition cs c = pre @ c # post"
proof -
  assume "Type c \<in> Type ` set cs"
  from replaceCondition_present [OF this, of c] obtain pre x post where
    h: "cs = pre @ x # post" "Type x = Type c" "Type c \<notin> Type ` set pre"
       "replaceCondition cs (Type c) c = (pre @ c # post, True)"
    by blast
  then have "cs = pre @ x # post \<and> Type x = Type c \<and> Type c \<notin> Type ` set pre
      \<and> setCondition cs c = pre @ c # post"
    by (simp add: setCondition_def)
  then show ?thesis by blast
qed

lemma setCondition_types:
  "map Type (setCondition cs c) = (if Type c \<in> Type ` set cs then map Type cs else map Type cs @ [Type c])"
proof (cases "Type c \<in> Type ` set cs")
  case True
  from setCondition_present [OF this] show ?thesis using True by auto
next
  case False
  then show ?thesis by (simp add: setCondition_absent)
qed

lemma setCondition_distinct:
  "distinct (map Type cs) \<Longrightarrow> distinct (map Type (setCondition cs c))"
  by (auto simp: setCondition_types)

lemma setCondition_filter:
  "distinct (map Type cs) \<Longrightarrow> filter (\<lambda>x. Type x = Type c) (setCondition cs c) = [c]"
proof (cases "Type c \<in> Type ` set cs")
  case False
  assume "distinct (map Type cs)"
  from False have "filter (\<lambda>x. Type x = Type c) cs = []"
    unfolding filter_empty_conv image_iff by metis
  with False show ?thesis by (simp add: setCondition_absent)
next
  case True
  assume d: "distinct (map Type cs)"
  from setCondition_present [OF True] obtain pre x post where
    h: "cs = pre @ x # post" "Type x = Type c" "Type c \<notin> Type ` set pre" "setCondition cs c = pre @ c # post"
    by blast
  from d h have "Type c \<notin> Type ` set post" by auto
  with h have "filter (\<lambda>x. Type x = Type c) pre = []" "filter (\<lambda>x. Type x = Type c) post = []"
    unfolding filter_empty_conv image_iff by metis+
  with h show ?thesis by simp
qed

text \<open>
  C5. \<open>updateCondition\<close> keeps the condition ledger free of duplicate types: on a ledger
  with at most one condition per type the result has at most one condition per type and
  exactly one of the written type, the new condition; writing the same type a second time
  leaves exactly one entry, the later one. A type already in the ledger is overwritten at
  its first position, everything before and after it staying in place; a type not in the
  ledger is appended at the end.
\<close>

theorem updateCondition_ledger:
  fixes e :: env and tr tr2 :: "event list" and nlb :: NLB
  shows
  "(distinct (map Type (Conditions (Status nlb))) \<longrightarrow>
      distinct (map Type (Conditions (Status (updateCondition e tr nlb t st r m))))
      \<and> filter (\<lambda>x. Type x = t) (Conditions (Status (updateCondition e tr nlb t st r m)))
          = [\<lparr>Type = t, Status = st, Reason = r, Message = m, LastTransitionTime = now e tr,
               ObservedGeneration = Generation nlb\<rparr>]
      \<and> filter (\<lambda>x. Type x = t)
            (Conditions (Status (updateCondition e tr2 (updateCondition e tr nlb t st r m) t st2 r2 m2)))
          = [\<lparr>Type = t, Status = st2, Reason = r2, Message = m2, LastTransitionTime = now e tr2,
               ObservedGeneration = Generation nlb\<rparr>])
   \<and> (t \<in> Type ` set (Conditions (Status nlb)) \<longrightarrow>
        (\<exists>pre x post. Conditions (Status nlb) = pre @ x # post \<and> Type x = t \<and> t \<notin> Type ` set pre
           \<and> Conditions (Status (updateCondition e tr nlb t st r m))
               = pre @ \<lparr>Type = t, Status = st, Reason = r, Message = m, LastTransitionTime = now e tr,
                         ObservedGeneration = Generation nlb\<rparr> # post))
   \<and> (t \<notin> Type ` set (Conditions (Status nlb)) \<longrightarrow>
        Conditions (Status (updateCondition e tr nlb t st r m))
          = Conditions (Status nlb) @ [\<lparr>Type = t, Status = st, Reason = r, Message = m,
               LastTransitionTime = now e tr, ObservedGeneration = Generation nlb\<rparr>])"
proof -
  let ?c = "\<lparr>Type = t, Status = st, Reason = r, Message = m, LastTransitionTime = now e tr,
              ObservedGeneration = Generation nlb\<rparr>"
  let ?c2 = "\<lparr>Type = t, Status = st2, Reason = r2, Message = m2, LastTransitionTime = now e tr2,
              ObservedGeneration = Generation nlb\<rparr>"
  let ?cs = "Conditions (Status nlb)"
  have u1: "Conditions (Status (updateCondition e tr nlb t st r m)) = setCondition ?cs ?c"
    by (simp add: updateCondition_def)
  have u2: "Conditions (Status (updateCondition e tr2 (updateCondition e tr nlb t st r m) t st2 r2 m2))
      = setCondition (setCondition ?cs ?c) ?c2"
    by (simp add: updateCondition_def)
  have tc: "Type ?c = t" "Type ?c2 = t" by simp_all
  have a: "distinct (map Type ?cs) \<Longrightarrow> distinct (map Type (setCondition ?cs ?c))"
    by (rule setCondition_distinct)
  have b: "distinct (map Type ?cs) \<Longrightarrow> filter (\<lambda>x. Type x = t) (setCondition ?cs ?c) = [?c]"
    using setCondition_filter [of ?cs ?c] by simp
  have c: "distinct (map Type ?cs) \<Longrightarrow>
      filter (\<lambda>x. Type x = t) (setCondition (setCondition ?cs ?c) ?c2) = [?c2]"
    using setCondition_filter [of "setCondition ?cs ?c" ?c2] a by simp
  have d: "t \<in> Type ` set ?cs \<Longrightarrow>
      \<exists>pre x post. ?cs = pre @ x # post \<and> Type x = t \<and> t \<notin> Type ` set pre
        \<and> setCondition ?cs ?c = pre @ ?c # post"
    using setCondition_present [of ?c ?cs] by simp
  have f: "t \<notin> Type ` set ?cs \<Longrightarrow> setCondition ?cs ?c = ?cs @ [?c]"
    using setCondition_absent [of ?c ?cs] by simp
  show ?thesis
    unfolding u1 u2 using a b c d f by blast
qed

theorem updateCondition_ledger_witness:
  "distinct (map Type (Conditions (Status example_nlb)))
   \<and> ''Ready'' \<in> Type ` set (Conditions (Status example_nlb))
   \<and> map Type (Conditions (Status (updateCondition example_env [] example_nlb ''Ready'' ConditionTrue
          ''ReconcileSuccess'' ''ok''))) = [''Ready'', ''Error'']
   \<and> filter (\<lambda>x. Type x = ''Ready'')
        (Conditions (Status (updateCondition example_env []
           (updateCondition example_env [] example_nlb ''Ready'' ConditionTrue ''ReconcileSuccess'' ''ok'')
           ''Ready'' ConditionFalse ''Deleting'' ''bye'')))
      = [\<lparr>Type = ''Ready'', Status = ConditionFalse, Reason = ''Deleting'', Message = ''bye'',
           LastTransitionTime = now example_env [], ObservedGeneration = Generation example_nlb\<rparr>]"
proof -
  have d: "distinct (map Type (Conditions (Status example_nlb)))"
    by (simp add: example_nlb_def example_conditions_def)
  have m: "''Ready'' \<in> Type ` set (Conditions (Status example_nlb))"
    by (simp add: example_nlb_def example_conditions_def)
  have t: "map Type (Conditions (Status (updateCondition example_env [] example_nlb ''Ready'' ConditionTrue
          ''ReconcileSuccess'' ''ok''))) = [''Ready'', ''Error'']"
    by (simp add: updateCondition_def setCondition_def example_nlb_def example_conditions_def)
  show ?thesis
    using d m t
      updateCondition_ledger [of example_nlb example_env "[]" "''Ready''" ConditionTrue
        "''ReconcileSuccess''" "''ok''" "[]" ConditionFalse "''Deleting''" "''bye''"]
    by simp
qed

subsection \<open>Bounded polling\<close>

declare poll.simps [simp del]

lemma paced_Cons: "xs \<noteq> [] \<Longrightarrow> paced d (x # xs) = x # Sleep d # paced d xs"
  by (cases xs) simp_all

lemma poll_stop:
  "cond tr = ((b, Some err), tr1) \<Longrightarrow> poll d n cond tr = (Some err, tr1)"
  by (subst poll.simps) simp

lemma poll_done:
  "cond tr = ((True, None), tr1) \<Longrightarrow> poll d n cond tr = (None, tr1)"
  by (subst poll.simps) simp

lemma poll_timeout:
  "cond tr = ((False, None), tr1) \<Longrightarrow> poll d 0 cond tr = (Some ErrWaitTimeout, tr1)"
  by (subst poll.simps) simp

lemma poll_again:
  "cond tr = ((False, None), tr1) \<Longrightarrow> poll d (Suc n) cond tr = poll d n cond (tr1 @ [Sleep d])"
  by (subst poll.simps) simp

lemma poll_result_Cons:
  "resps \<noteq> [] \<Longrightarrow> poll_result V (Suc n) (x # resps) r = poll_result V n resps r"
  by (cases "snd (V (last resps))") (simp_all add: poll_result_def)

lemma poll_paced:
  assumes c: "\<And>t. cond t = (V (sdk e t req), t @ [Sdk req (sdk e t req)])"
  shows "poll d n cond tr = (r, tr') \<Longrightarrow>
    \<exists>resps. resps \<noteq> [] \<and> length resps \<le> Suc n
      \<and> tr' = tr @ paced d (map (Sdk req) resps)
      \<and> (\<forall>x\<in>set (butlast resps). V x = (False, None))
      \<and> poll_result V n resps r"
proof (induction n arbitrary: tr)
  case 0
  let ?x = "sdk e tr req"
  obtain b err where v: "V ?x = (b, err)" by (cases "V ?x")
  have ct: "cond tr = ((b, err), tr @ [Sdk req ?x])" using c [of tr] v by simp
  have "poll_result V 0 [?x] r \<and> tr' = tr @ [Sdk req ?x]"
  proof (cases err)
    case (Some m)
    with ct 0 show ?thesis by (cases b) (auto simp: poll_stop poll_result_def v)
  next
    case None
    show ?thesis
    proof (cases b)
      case True
      with None ct 0 show ?thesis by (auto simp: poll_done poll_result_def v)
    next
      case False
      with None ct 0 show ?thesis by (auto simp: poll_timeout poll_result_def v)
    qed
  qed
  then have "[?x] \<noteq> [] \<and> length [?x] \<le> Suc 0
      \<and> tr' = tr @ paced d (map (Sdk req) [?x])
      \<and> (\<forall>x\<in>set (butlast [?x]). V x = (False, None))
      \<and> poll_result V 0 [?x] r"
    by simp
  then show ?case by blast
next
  case (Suc n)
  let ?x = "sdk e tr req"
  obtain b err where v: "V ?x = (b, err)" by (cases "V ?x")
  have ct: "cond tr = ((b, err), tr @ [Sdk req ?x])" using c [of tr] v by simp
  show ?case
  proof (cases "err = None \<and> \<not> b")
    case False
    have "poll_result V (Suc n) [?x] r \<and> tr' = tr @ [Sdk req ?x]"
    proof (cases err)
      case (Some m)
      with ct Suc.prems show ?thesis by (cases b) (auto simp: poll_stop poll_result_def v)
    next
      case None
      with False have "b" by simp
      with None ct Suc.prems show ?thesis by (auto simp: poll_done poll_result_def v)
    qed
    then have "[?x] \<noteq> [] \<and> length [?x] \<le> Suc (Suc n)
      \<and> tr' = tr @ paced d (map (Sdk req) [?x])
      \<and> (\<forall>x\<in>set (butlast [?x]). V x = (False, None))
      \<and> poll_result V (Suc n) [?x] r"
      by simp
    then show ?thesis by blast
  next
    case True
    with ct have "cond tr = ((False, None), tr @ [Sdk req ?x])" by simp
    from poll_again [of cond tr _ d n, OF this] Suc.prems
    have "poll d n cond ((tr @ [Sdk req ?x]) @ [Sleep d]) = (r, tr')" by simp
    from Suc.IH [OF this] obtain resps where
      h: "resps \<noteq> []" "length resps \<le> Suc n"
         "tr' = ((tr @ [Sdk req ?x]) @ [Sleep d]) @ paced d (map (Sdk req) resps)"
         "\<forall>x\<in>set (butlast resps). V x = (False, None)"
         "poll_result V n resps r"
      by blast
    from h(1) have m: "map (Sdk req) resps \<noteq> []" by simp
    have "(?x # resps) \<noteq> [] \<and> length (?x # resps) \<le> Suc (Suc n)
      \<and> tr' = tr @ paced d (map (Sdk req) (?x # resps))
      \<and> (\<forall>x\<in>set (butlast (?x # resps)). V x = (False, None))
      \<and> poll_result V (Suc n) (?x # resps) r"
      using h True v by (simp add: paced_Cons [OF m] poll_result_Cons)
    then show ?thesis by blast
  qed
qed

lemma jobStatus_answer:
  "jobStatus e j t = (jobAnswer j (sdk e t (GetJobStatusRequest j)),
      t @ [Sdk (GetJobStatusRequest j) (sdk e t (GetJobStatusRequest j))])"
  by (simp add: jobStatus_def sdk_call_def)

lemma activeStatus_answer:
  "activeStatus e l t = (activeAnswer l (sdk e t (GetLoadBalancerAttributeRequest l)),
      t @ [Sdk (GetLoadBalancerAttributeRequest l) (sdk e t (GetLoadBalancerAttributeRequest l))])"
proof -
  obtain x y where g: "sdk e t (GetLoadBalancerAttributeRequest l) = (x, y)"
    by (cases "sdk e t (GetLoadBalancerAttributeRequest l)")
  show ?thesis
    by (cases y; cases x)
       (simp_all add: activeStatus_def activeAnswer_def GetLoadBalancer_def sdk_call_def g)
qed

lemma waitJobFinish_poll: "waitJobFinish e tr j = poll (3 * Second) 60 (jobStatus e j) tr"
proof -
  have "nat ((3 * Minute) div (3 * Second)) = 60" by (simp add: Minute_def Second_def)
  then show ?thesis unfolding waitJobFinish_def PollImmediate_def by (simp only:)
qed

lemma WaitLoadBalancerActive_poll:
  "WaitLoadBalancerActive e tr l = poll (10 * Second) 30 (activeStatus e l) tr"
proof -
  have "nat ((5 * Minute) div (10 * Second)) = 30" by (simp add: Minute_def Second_def)
  then show ?thesis unfolding WaitLoadBalancerActive_def PollImmediate_def by (simp only:)
qed

lemma poll_result_cases:
  assumes "poll_result V n resps r" and "length resps = Suc n \<Longrightarrow> P"
  shows "case snd (V (last resps)) of
            Some m \<Rightarrow> r = Some m
          | None \<Rightarrow> (if fst (V (last resps)) then r = None else r = Some ErrWaitTimeout \<and> P)"
  using assms by (simp add: poll_result_def split: option.splits)

lemma ceiling_3s:
  "length (resps :: sdk_resp list) \<le> Suc 60 \<Longrightarrow> resps \<noteq> [] \<Longrightarrow> (int (length resps) - 1) * (3 * Second) \<le> 3 * Minute"
  by (simp add: Minute_def Second_def)

lemma ceiling_3s_reached:
  "length (resps :: sdk_resp list) = Suc 60 \<Longrightarrow> 3 * Minute < int (length resps) * (3 * Second)"
  by (simp add: Minute_def Second_def)

lemma ceiling_10s:
  "length (resps :: sdk_resp list) \<le> Suc 30 \<Longrightarrow> resps \<noteq> [] \<Longrightarrow> (int (length resps) - 1) * (10 * Second) \<le> 5 * Minute"
  by (simp add: Minute_def Second_def)

lemma ceiling_10s_reached:
  "length (resps :: sdk_resp list) = Suc 30 \<Longrightarrow> 5 * Minute < int (length resps) * (10 * Second)"
  by (simp add: Minute_def Second_def)

lemma slow_job_run:
  "waitJobFinish env_slow_job [] ''job-1'' =
     (None,
      [Sdk (GetJobStatusRequest ''job-1'') (Some (Body_empty\<lparr>BodyStatus := Some ''Processing''\<rparr>), None),
       Sleep (3 * Second),
       Sdk (GetJobStatusRequest ''job-1'') (Some (Body_empty\<lparr>BodyStatus := Some ''Processing''\<rparr>), None),
       Sleep (3 * Second),
       Sdk (GetJobStatusRequest ''job-1'') (Some (Body_empty\<lparr>BodyStatus := Some ''Succeeded''\<rparr>), None)])"
  by (simp add: waitJobFinish_poll poll.simps jobStatus_def jobAnswer_def
      sdk_call_def env_slow_job_def Body_empty_def StringValue_def)

lemma slow_job_active:
  "WaitLoadBalancerActive env_slow_job [] ''nlb-1'' =
     (None,
      [Sdk (GetLoadBalancerAttributeRequest ''nlb-1'')
         (Some (Body_empty\<lparr>BodyDNSName := Some ''nlb-1.example.com'',
                           BodyLoadBalancerStatus := Some ''Active''\<rparr>), None)])"
  by (simp add: WaitLoadBalancerActive_poll poll.simps activeStatus_def
      GetLoadBalancer_def sdk_call_def env_slow_job_def Body_empty_def StringValue_def)

text \<open>
  C4, as amended. \<open>waitJobFinish\<close> polls the job status with a pause of 3 seconds
  between two polls, the pauses adding up to at most 3 minutes. Every poll but the last
  found a status other than Succeeded and Failed. The last poll decides: status Succeeded
  returns success; status Failed, a failed status query and an empty response each return
  an error and end the polling; any other status at the last poll means that a further
  pause would pass the ceiling, and the timeout error is returned.
  \<open>WaitLoadBalancerActive\<close> polls in the same way with a pause of 10 seconds and a
  ceiling of 5 minutes.
\<close>

theorem waiters_bounded_polling:
  assumes j: "waitJobFinish e tr jobId = (r, tr')"
    and a: "WaitLoadBalancerActive e tr lbId = (r2, tr2)"
  shows
  "(\<exists>resps. resps \<noteq> []
      \<and> tr' = tr @ paced (3 * Second) (map (Sdk (GetJobStatusRequest jobId)) resps)
      \<and> (int (length resps) - 1) * (3 * Second) \<le> 3 * Minute
      \<and> (\<forall>x\<in>set (butlast resps). jobAnswer jobId x = (False, None))
      \<and> (case snd (jobAnswer jobId (last resps)) of
            Some m \<Rightarrow> r = Some m
          | None \<Rightarrow>
              (if fst (jobAnswer jobId (last resps)) then r = None
               else r = Some ErrWaitTimeout \<and> 3 * Minute < int (length resps) * (3 * Second))))
   \<and> (\<exists>resps. resps \<noteq> []
      \<and> tr2 = tr @ paced (10 * Second) (map (Sdk (GetLoadBalancerAttributeRequest lbId)) resps)
      \<and> (int (length resps) - 1) * (10 * Second) \<le> 5 * Minute
      \<and> (\<forall>x\<in>set (butlast resps). activeAnswer lbId x = (False, None))
      \<and> (case snd (activeAnswer lbId (last resps)) of
            Some m \<Rightarrow> r2 = Some m
          | None \<Rightarrow>
              (if fst (activeAnswer lbId (last resps)) then r2 = None
               else r2 = Some ErrWaitTimeout \<and> 5 * Minute < int (length resps) * (10 * Second))))"
proof
  from j have "poll (3 * Second) 60 (jobStatus e jobId) tr = (r, tr')"
    by (simp only: waitJobFinish_poll)
  from poll_paced [of "jobStatus e jobId" "jobAnswer jobId" e "GetJobStatusRequest jobId", OF jobStatus_answer this]
  obtain resps where h: "resps \<noteq> []" "length resps \<le> Suc 60"
    "tr' = tr @ paced (3 * Second) (map (Sdk (GetJobStatusRequest jobId)) resps)"
    "\<forall>x\<in>set (butlast resps). jobAnswer jobId x = (False, None)"
    "poll_result (jobAnswer jobId) 60 resps r"
    by blast
  note b = ceiling_3s [OF h(2) h(1)]
  note c = poll_result_cases [OF h(5) ceiling_3s_reached]
  from h(1) h(3) b h(4) c show "\<exists>resps. resps \<noteq> []
      \<and> tr' = tr @ paced (3 * Second) (map (Sdk (GetJobStatusRequest jobId)) resps)
      \<and> (int (length resps) - 1) * (3 * Second) \<le> 3 * Minute
      \<and> (\<forall>x\<in>set (butlast resps). jobAnswer jobId x = (False, None))
      \<and> (case snd (jobAnswer jobId (last resps)) of
            Some m \<Rightarrow> r = Some m
          | None \<Rightarrow>
              (if fst (jobAnswer jobId (last resps)) then r = None
               else r = Some ErrWaitTimeout \<and> 3 * Minute < int (length resps) * (3 * Second)))"
    by (intro exI [of _ resps] conjI)
next
  from a have "poll (10 * Second) 30 (activeStatus e lbId) tr = (r2, tr2)"
    by (simp only: WaitLoadBalancerActive_poll)
  from poll_paced [of "activeStatus e lbId" "activeAnswer lbId" e "GetLoadBalancerAttributeRequest lbId",
      OF activeStatus_answer this]
  obtain resps where h: "resps \<noteq> []" "length resps \<le> Suc 30"
    "tr2 = tr @ paced (10 * Second) (map (Sdk (GetLoadBalancerAttributeRequest lbId)) resps)"
    "\<forall>x\<in>set (butlast resps). activeAnswer lbId x = (False, None)"
    "poll_result (activeAnswer lbId) 30 resps r2"
    by blast
  note b = ceiling_10s [OF h(2) h(1)]
  note c = poll_result_cases [OF h(5) ceiling_10s_reached]
  from h(1) h(3) b h(4) c show "\<exists>resps. resps \<noteq> []
      \<and> tr2 = tr @ paced (10 * Second) (map (Sdk (GetLoadBalancerAttributeRequest lbId)) resps)
      \<and> (int (length resps) - 1) * (10 * Second) \<le> 5 * Minute
      \<and> (\<forall>x\<in>set (butlast resps). activeAnswer lbId x = (False, None))
      \<and> (case snd (activeAnswer lbId (last resps)) of
            Some m \<Rightarrow> r2 = Some m
          | None \<Rightarrow>
              (if fst (activeAnswer lbId (last resps)) then r2 = None
               else r2 = Some ErrWaitTimeout \<and> 5 * Minute < int (length resps) * (10 * Second)))"
    by (intro exI [of _ resps] conjI)
qed

theorem waiters_bounded_polling_witness:
  "fst (waitJobFinish env_slow_job [] ''job-1'') = None
   \<and> length (snd (waitJobFinish env_slow_job [] ''job-1'')) = 5
   \<and> (\<exists>resps. resps \<noteq> []
      \<and> snd (waitJobFinish env_slow_job [] ''job-1'')
          = [] @ paced (3 * Second) (map (Sdk (GetJobStatusRequest ''job-1'')) resps)
      \<and> (int (length resps) - 1) * (3 * Second) \<le> 3 * Minute)"
  using waiters_bounded_polling [OF slow_job_run slow_job_active]
  by (simp add: slow_job_run) blast

text \<open>
  C4 as stated fails: a status query that itself fails ends the polling at the first
  poll with an error that is neither the failure of the job nor the timeout.
\<close>

theorem waitJobFinish_fourth_outcome:
  "waitJobFinish env_throttled [] ''job-1'' =
     (Some ''failed to get job status: Throttling'',
      [Sdk (GetJobStatusRequest ''job-1'') (None, Some ''Throttling'')])
   \<and> ''failed to get job status: Throttling'' \<noteq> ErrWaitTimeout
   \<and> ''failed to get job status: Throttling'' \<noteq> ''job job-1 failed''"
  by (simp add: waitJobFinish_poll poll.simps jobStatus_def jobAnswer_def
      sdk_call_def env_throttled_def ErrWaitTimeout_def)

subsection \<open>Deleting the load balancer\<close>

lemma Contains_append_right: "Contains s n \<Longrightarrow> Contains (p @ s) n"
proof (induction p)
  case Nil
  then show ?case by simp
next
  case (Cons c p)
  then show ?case by simp
qed

lemma Contains_skip:
  "c \<notin> set p \<Longrightarrow> Contains (p @ s) (c # n) = Contains s (c # n)"
proof (induction p)
  case Nil
  then show ?case by simp
next
  case (Cons a p)
  then show ?case by (cases s) auto
qed

lemma Contains_sublist: "Contains s n = sublist n s"
  by (induction s) (auto simp: sublist_Cons_right)

lemma Contains_get_error [simp]:
  "Contains (''failed to get load balancer: '' @ m) ''ResourceNotFound'' = Contains m ''ResourceNotFound''"
  by (rule Contains_skip) simp

lemma Contains_protection_error [simp]:
  "Contains (''failed to update load balancer protection: '' @ m) ''ResourceNotFound''
     = Contains m ''ResourceNotFound''"
  by (rule Contains_skip) simp

lemma Contains_invalid_get [simp]:
  "\<not> Contains ''invalid response from GetLoadBalancerAttribute API'' ''ResourceNotFound''"
  using Contains_skip [of "CHR ''R''" "''invalid response from GetLoadBalancerAttribute API''" "[]" "''esourceNotFound''"]
  by simp

lemma Contains_invalid_protection [simp]:
  "\<not> Contains ''invalid response from UpdateLoadBalancerProtection API'' ''ResourceNotFound''"
  using Contains_skip [of "CHR ''R''" "''invalid response from UpdateLoadBalancerProtection API''" "[]" "''esourceNotFound''"]
  by simp

lemma set_paced: "set (paced d xs) \<subseteq> insert (Sleep d) (set xs)"
  by (induction d xs rule: paced.induct) auto

lemma paced_events:
  "ev \<in> set (paced d (map (Sdk (GetJobStatusRequest j)) resps)) \<Longrightarrow> is_job_event ev"
  using set_paced [of d "map (Sdk (GetJobStatusRequest j)) resps"] by auto

lemma waitJobFinish_events:
  assumes "waitJobFinish e tr j = (r, tr')"
  shows "\<exists>ex. tr' = tr @ ex \<and> (\<forall>ev\<in>set ex. is_job_event ev)"
proof -
  from assms have "poll (3 * Second) 60 (jobStatus e j) tr = (r, tr')"
    by (simp only: waitJobFinish_poll)
  from poll_paced [of "jobStatus e j" "jobAnswer j" e "GetJobStatusRequest j", OF jobStatus_answer this]
  obtain resps where "tr' = tr @ paced (3 * Second) (map (Sdk (GetJobStatusRequest j)) resps)"
    by blast
  then show ?thesis using paced_events by blast
qed

lemma issueDelete_events:
  assumes "issueDelete e t l = (r, t')"
  shows "\<exists>ex. t' = t @ Sdk (DeleteLoadBalancerRequest l) (sdk e t (DeleteLoadBalancerRequest l)) # ex
           \<and> (\<forall>ev\<in>set ex. is_job_event ev)"
proof -
  let ?d = "sdk e t (DeleteLoadBalancerRequest l)"
  let ?t1 = "t @ [Sdk (DeleteLoadBalancerRequest l) ?d]"
  show ?thesis
  proof (cases "\<exists>b j. ?d = (Some b, None) \<and> BodyJobId b = Some j")
    case True
    then obtain b j where d: "?d = (Some b, None)" "BodyJobId b = Some j" by blast
    with assms have "waitJobFinish e ?t1 j = (r, t')"
      by (simp add: issueDelete_def sdk_call_def)
    from waitJobFinish_events [OF this] show ?thesis by auto
  next
    case False
    obtain x y where d: "?d = (x, y)" by (cases ?d)
    from False d assms have "t' = ?t1"
      by (cases y; cases x) (auto simp: issueDelete_def sdk_call_def split: option.splits if_splits)
    then show ?thesis by simp
  qed
qed

lemma GetLoadBalancer_NotFound:
  "NotFound (sdk e tr (GetLoadBalancerAttributeRequest l)) \<Longrightarrow>
   GetLoadBalancer e tr l = ((None, None),
     tr @ [Sdk (GetLoadBalancerAttributeRequest l) (sdk e tr (GetLoadBalancerAttributeRequest l))])"
  by (cases "sdk e tr (GetLoadBalancerAttributeRequest l)")
     (auto simp: GetLoadBalancer_def sdk_call_def NotFound_def split: option.splits)

lemma GetLoadBalancer_error:
  "sdk e tr (GetLoadBalancerAttributeRequest l) = (x, Some m) \<Longrightarrow> \<not> Contains m ''ResourceNotFound'' \<Longrightarrow>
   GetLoadBalancer e tr l = ((None, Some (''failed to get load balancer: '' @ m)),
     tr @ [Sdk (GetLoadBalancerAttributeRequest l) (x, Some m)])"
  by (simp add: GetLoadBalancer_def sdk_call_def)

lemma GetLoadBalancer_invalid:
  "sdk e tr (GetLoadBalancerAttributeRequest l) = (None, None) \<Longrightarrow>
   GetLoadBalancer e tr l = ((None, Some ''invalid response from GetLoadBalancerAttribute API''),
     tr @ [Sdk (GetLoadBalancerAttributeRequest l) (None, None)])"
  by (simp add: GetLoadBalancer_def sdk_call_def)

lemma GetLoadBalancer_found:
  "sdk e tr (GetLoadBalancerAttributeRequest l) = (Some b, None) \<Longrightarrow>
   GetLoadBalancer e tr l = ((Some b, None), tr @ [Sdk (GetLoadBalancerAttributeRequest l) (Some b, None)])"
  by (simp add: GetLoadBalancer_def sdk_call_def)

lemma DeleteLoadBalancer_check:
  "DeleteLoadBalancer e tr l =
     (if NotFound (sdk e tr (GetLoadBalancerAttributeRequest l))
      then (None, tr @ [Sdk (GetLoadBalancerAttributeRequest l) (sdk e tr (GetLoadBalancerAttributeRequest l))])
      else disableProtection e
             (tr @ [Sdk (GetLoadBalancerAttributeRequest l) (sdk e tr (GetLoadBalancerAttributeRequest l))]
                @ checkWarning (sdk e tr (GetLoadBalancerAttributeRequest l))) l)"
proof (cases "NotFound (sdk e tr (GetLoadBalancerAttributeRequest l))")
  case True
  then show ?thesis by (simp add: DeleteLoadBalancer_def GetLoadBalancer_NotFound)
next
  case False
  obtain x y where g: "sdk e tr (GetLoadBalancerAttributeRequest l) = (x, y)"
    by (cases "sdk e tr (GetLoadBalancerAttributeRequest l)")
  show ?thesis
  proof (cases y)
    case (Some m)
    with False g have n: "\<not> Contains m ''ResourceNotFound''" by (simp add: NotFound_def)
    from g Some have g': "sdk e tr (GetLoadBalancerAttributeRequest l) = (x, Some m)" by simp
    show ?thesis
      using False n
      by (simp add: DeleteLoadBalancer_def GetLoadBalancer_error [OF g' n] checkWarning_def g')
  next
    case None
    show ?thesis
    proof (cases x)
      case None2: None
      from g None None2 have g': "sdk e tr (GetLoadBalancerAttributeRequest l) = (None, None)" by simp
      show ?thesis
        using False
        by (simp add: DeleteLoadBalancer_def GetLoadBalancer_invalid [OF g'] checkWarning_def g')
    next
      case (Some b)
      from g None Some have g': "sdk e tr (GetLoadBalancerAttributeRequest l) = (Some b, None)" by simp
      show ?thesis
        using False
        by (simp add: DeleteLoadBalancer_def GetLoadBalancer_found [OF g'] checkWarning_def g')
    qed
  qed
qed

lemma disableProtection_eq:
  "disableProtection e t l =
     (if NotFound (sdk e t (UpdateLoadBalancerProtectionRequest l False None))
      then (None, t @ [Sdk (UpdateLoadBalancerProtectionRequest l False None)
                         (sdk e t (UpdateLoadBalancerProtectionRequest l False None))])
      else issueDelete e
             (t @ [Sdk (UpdateLoadBalancerProtectionRequest l False None)
                     (sdk e t (UpdateLoadBalancerProtectionRequest l False None))]
                @ protectionWarning (sdk e t (UpdateLoadBalancerProtectionRequest l False None))) l)"
proof -
  obtain x y where p: "sdk e t (UpdateLoadBalancerProtectionRequest l False None) = (x, y)"
    by (cases "sdk e t (UpdateLoadBalancerProtectionRequest l False None)")
  show ?thesis
  proof (cases y)
    case (Some m)
    then show ?thesis
      by (cases x)
         (simp_all add: disableProtection_def UpdateLoadBalancerProtection_def sdk_call_def p NotFound_def
          protectionWarning_def)
  next
    case None
    then show ?thesis
      by (cases x)
         (simp_all add: disableProtection_def UpdateLoadBalancerProtection_def sdk_call_def p NotFound_def
          protectionWarning_def)
  qed
qed

text \<open>
  C8, as amended. \<open>DeleteLoadBalancer\<close> first asks for the attributes of the load
  balancer. If that reports NotFound, the delete returns success and issues nothing else.
  Otherwise (the load balancer was found, or the check failed and the failure was logged)
  it issues the request that sets the deletion protection to false. If that reports
  NotFound, the delete returns success without issuing the delete request. Otherwise (any
  other error being logged as a warning, and nothing more) the delete request is issued
  next and the result is the result of that part, which waits for the job if there is one.
\<close>

theorem DeleteLoadBalancer_protocol:
  assumes g: "g = sdk e tr (GetLoadBalancerAttributeRequest lbId)"
    and tr1: "tr1 = tr @ [Sdk (GetLoadBalancerAttributeRequest lbId) g]"
    and p: "p = sdk e (tr1 @ checkWarning g) (UpdateLoadBalancerProtectionRequest lbId False None)"
    and tr2: "tr2 = tr1 @ checkWarning g @ [Sdk (UpdateLoadBalancerProtectionRequest lbId False None) p]"
    and d: "d = sdk e (tr2 @ protectionWarning p) (DeleteLoadBalancerRequest lbId)"
  shows "DeleteLoadBalancer e tr lbId =
           (if NotFound g then (None, tr1)
            else if NotFound p then (None, tr2)
            else issueDelete e (tr2 @ protectionWarning p) lbId)
         \<and> (\<exists>ex. snd (issueDelete e (tr2 @ protectionWarning p) lbId)
                  = tr2 @ protectionWarning p @ Sdk (DeleteLoadBalancerRequest lbId) d # ex
                \<and> (\<forall>ev\<in>set ex. is_job_event ev))
         \<and> (\<forall>w\<in>set (checkWarning g @ protectionWarning p). \<exists>m. w = Warningf m)
         \<and> (\<forall>m. snd p = Some m \<longrightarrow> protectionWarning p \<noteq> [])"
proof -
  have a: "DeleteLoadBalancer e tr lbId =
           (if NotFound g then (None, tr1)
            else if NotFound p then (None, tr2)
            else issueDelete e (tr2 @ protectionWarning p) lbId)"
    unfolding g tr1 p tr2
    by (simp add: DeleteLoadBalancer_check disableProtection_eq)
  obtain r t' where i: "issueDelete e (tr2 @ protectionWarning p) lbId = (r, t')"
    by (cases "issueDelete e (tr2 @ protectionWarning p) lbId")
  from issueDelete_events [OF i] have b: "\<exists>ex. snd (issueDelete e (tr2 @ protectionWarning p) lbId)
                  = tr2 @ protectionWarning p @ Sdk (DeleteLoadBalancerRequest lbId) d # ex
                \<and> (\<forall>ev\<in>set ex. is_job_event ev)"
    unfolding i d by simp
  have c: "\<forall>w\<in>set (checkWarning g @ protectionWarning p). \<exists>m. w = Warningf m"
    by (auto simp: checkWarning_def protectionWarning_def split: option.splits)
  have f: "\<forall>m. snd p = Some m \<longrightarrow> protectionWarning p \<noteq> []"
    by (simp add: protectionWarning_def)
  from a b c f show ?thesis by blast
qed

theorem DeleteLoadBalancer_protocol_witness:
  "\<not> NotFound (sdk env_protection_fails [] (GetLoadBalancerAttributeRequest ''nlb-1''))
   \<and> DeleteLoadBalancer env_protection_fails [] ''nlb-1'' =
      (None,
       [Sdk (GetLoadBalancerAttributeRequest ''nlb-1'')
          (Some (Body_empty\<lparr>BodyDNSName := Some ''nlb-1.example.com'',
                            BodyLoadBalancerStatus := Some ''Active''\<rparr>), None),
        Sdk (UpdateLoadBalancerProtectionRequest ''nlb-1'' False None) (None, Some ''Throttling''),
        Warningf (''Failed to disable deletion protection (will try to delete anyway): ''
                   @ ''failed to update load balancer protection: Throttling''),
        Sdk (DeleteLoadBalancerRequest ''nlb-1'')
          (Some (Body_empty\<lparr>BodyDNSName := Some ''nlb-1.example.com'',
                            BodyLoadBalancerStatus := Some ''Active''\<rparr>), None)])"
  using DeleteLoadBalancer_protocol [OF refl refl refl refl refl, of env_protection_fails "[]" "''nlb-1''"]
  by (simp add: NotFound_def checkWarning_def protectionWarning_def issueDelete_def sdk_call_def
      env_protection_fails_def Body_empty_def)

text \<open>
  C8 as stated fails: the first call is the existence check, and when it reports NotFound
  no request to disable the protection is issued at all.
\<close>

theorem DeleteLoadBalancer_no_protection_call:
  "DeleteLoadBalancer env_gone [] ''nlb-1'' =
     (None, [Sdk (GetLoadBalancerAttributeRequest ''nlb-1'') (None, Some ''ResourceNotFound.loadBalancer'')])"
  by (simp add: DeleteLoadBalancer_def GetLoadBalancer_def sdk_call_def env_gone_def)

subsection \<open>Failures of the steps after the load balancer is present\<close>

lemma updateCondition_frame [simp]:
  "LoadBalancerId (Status (updateCondition e tr nlb t st r m)) = LoadBalancerId (Status nlb)"
  "DNSName (Status (updateCondition e tr nlb t st r m)) = DNSName (Status nlb)"
  "LoadBalancerStatus (Status (updateCondition e tr nlb t st r m)) = LoadBalancerStatus (Status nlb)"
  "ListenerStatus (Status (updateCondition e tr nlb t st r m)) = ListenerStatus (Status nlb)"
  "Spec (updateCondition e tr nlb t st r m) = Spec nlb"
  "Finalizers (updateCondition e tr nlb t st r m) = Finalizers nlb"
  "Generation (updateCondition e tr nlb t st r m) = Generation nlb"
  "DeletionTimestamp (updateCondition e tr nlb t st r m) = DeletionTimestamp nlb"
  by (simp_all add: updateCondition_def)

lemma reconcilePresent_security_groups_fail:
  assumes "handleSecurityGroups e tr nlb = (Some err, tr1)"
  shows "reconcilePresent e tr nlb =
     (Inr (requeueAfter (30 * Second), Some err),
      tr1 @ [RecorderEvent ''Warning'' ReasonReconcileError (''Failed to handle security groups: '' @ err)],
      nlb)"
  using assms by (simp add: reconcilePresent_def)

lemma reconcilePresent_listeners_fail:
  assumes "handleSecurityGroups e tr nlb = (None, tr1)"
    and "handleListeners e tr1 nlb = (Some err, tr2, nlb2)"
  shows "reconcilePresent e tr nlb =
     (Inr (requeueAfter (30 * Second), Some err),
      tr2 @ [RecorderEvent ''Warning'' ReasonReconcileError (''Failed to handle listeners: '' @ err)],
      nlb)"
  using assms by (auto simp: reconcilePresent_def handleListeners_def split: prod.splits option.splits)

text \<open>
  Where the creation of the load balancer fails, the reconciler emits the warning event
  and writes the Error condition.
\<close>

lemma create_failure_sets_condition:
  "handleCreateOrUpdate env_throttled [] nlb_new =
     (Inr (requeueAfter (30 * Second), Some ''failed to create load balancer: Throttling''),
      [Sdk (CreateLoadBalancerRequest example_spec) (None, Some ''Throttling''),
       RecorderEvent ''Warning'' ''ReconcileError'' ''Failed to create NLB: failed to create load balancer: Throttling''],
      nlb_new\<lparr>Status := (Status nlb_new)\<lparr>Conditions :=
        [\<lparr>Type = ''Error'', Status = ConditionTrue, Reason = ''ReconcileError'',
          Message = ''failed to create load balancer: Throttling'', LastTransitionTime = 2,
          ObservedGeneration = 1\<rparr>]\<rparr>\<rparr>)"
  by (simp add: handleCreateOrUpdate_def createBranch_def CreateLoadBalancer_def sdk_call_def
      updateCondition_def setCondition_def env_throttled_def nlb_new_def nlb_with_groups_def
      ReasonReconcileError_def ConditionTypeError_def)

text \<open>
  C6. Where joining the security groups fails after the load balancer was found, the
  reconciler returns the error with a requeue after 30 seconds and emits the warning
  event, but writes no condition: the ledger, empty before, is empty afterwards.
\<close>

theorem security_group_failure_sets_no_condition:
  "handleCreateOrUpdate env_join_fails [] nlb_with_groups =
     (Inr (requeueAfter (30 * Second), Some ''failed to join security group: Throttling''),
      [Sdk (GetLoadBalancerAttributeRequest ''nlb-1'') (Some active_body, None),
       Sdk (LoadBalancerJoinSecurityGroupRequest ''nlb-1'' [''sg-1'']) (None, Some ''Throttling''),
       RecorderEvent ''Warning'' ''ReconcileError''
         ''Failed to handle security groups: failed to join security group: Throttling''],
      nlb_with_groups)
   \<and> Conditions (Status nlb_with_groups) = []"
  by (simp add: handleCreateOrUpdate_def verifyBranch_def GetLoadBalancer_def sdk_call_def
      setAttributes_def reconcilePresent_def handleSecurityGroups_def JoinSecurityGroup_def
      env_join_fails_def nlb_with_groups_def example_spec_def active_body_def Body_empty_def
      ReasonReconcileError_def)

subsection \<open>Listener reconciliation\<close>

lemma sdk_requests_append [simp]: "sdk_requests (xs @ ys) = sdk_requests xs @ sdk_requests ys"
  by (induction xs rule: sdk_requests.induct) simp_all

lemma existingListeners_fold:
  "fold (\<lambda>ls m. m(ListenerStatus.ListenerPort ls \<mapsto> ListenerId ls)) lss m p
     = (case map_of (rev (map (\<lambda>s. (ListenerStatus.ListenerPort s, ListenerId s)) lss)) p of
          Some i \<Rightarrow> Some i | None \<Rightarrow> m p)"
  by (induction lss arbitrary: m) (auto simp: map_add_def split: option.splits)

lemma existingListeners_map_of:
  "existingListeners lss = map_of (rev (map (\<lambda>s. (ListenerStatus.ListenerPort s, ListenerId s)) lss))"
  by (rule ext) (simp add: existingListeners_def existingListeners_fold split: option.splits)

lemma existingListeners_None:
  "existingListeners lss p = None \<longleftrightarrow> p \<notin> ListenerStatus.ListenerPort ` set lss"
  by (force simp: existingListeners_map_of map_of_eq_None_iff image_iff)

lemma existingListeners_distinct:
  assumes "distinct (map ListenerStatus.ListenerPort lss)" and "s \<in> set lss"
  shows "existingListeners lss (ListenerStatus.ListenerPort s) = Some (ListenerId s)"
proof -
  have "map fst (rev (map (\<lambda>s. (ListenerStatus.ListenerPort s, ListenerId s)) lss))
      = rev (map ListenerStatus.ListenerPort lss)"
    by (simp add: rev_map comp_def)
  with assms(1) have "distinct (map fst (rev (map (\<lambda>s. (ListenerStatus.ListenerPort s, ListenerId s)) lss)))"
    by simp
  moreover from assms(2) have "(ListenerStatus.ListenerPort s, ListenerId s)
      \<in> set (rev (map (\<lambda>s. (ListenerStatus.ListenerPort s, ListenerId s)) lss))"
    by auto
  ultimately show ?thesis
    unfolding existingListeners_map_of by (rule map_of_is_SomeI)
qed

lemma CreateListener_ok:
  assumes "CreateListener e tr lb l = ((i, None), tr1)"
  shows "\<exists>b. sdk e tr (CreateListenerRequest lb l) = (Some b, None) \<and> BodyListenerId b = Some i
           \<and> tr1 = tr @ [Sdk (CreateListenerRequest lb l) (Some b, None)]"
proof -
  obtain x y where r: "sdk e tr (CreateListenerRequest lb l) = (x, y)"
    by (cases "sdk e tr (CreateListenerRequest lb l)")
  from assms r show ?thesis
    by (cases y; cases x) (auto simp: CreateListener_def sdk_call_def split: option.splits)
qed

lemma listener_record_mono:
  "listener_record lb ex new l s \<Longrightarrow> listener_record lb ex (ev # new) l s"
  by (auto simp: listener_record_def split: option.splits)

lemma listenersLoop_items:
  "listenersLoop e lb ex ls tr acc = (None, tr', out) \<Longrightarrow>
     \<exists>items new. out = acc @ items \<and> tr' = tr @ new
       \<and> list_all2 (listener_record lb ex new) ls items
       \<and> sdk_requests new = map (CreateListenerRequest lb) (filter (\<lambda>l. ex (ListenerSpec.ListenerPort l) = None) ls)
       \<and> length (sdk_requests new) = length new"
proof (induction ls arbitrary: tr acc)
  case Nil
  then show ?case by simp
next
  case (Cons l ls)
  let ?p = "ListenerSpec.ListenerPort l"
  show ?case
  proof (cases "ex ?p")
    case (Some i)
    let ?s = "\<lparr>ListenerPort = ?p, ListenerId = i, Status = ''Active''\<rparr>"
    from Cons.prems Some have "listenersLoop e lb ex ls tr (acc @ [?s]) = (None, tr', out)"
      by simp
    from Cons.IH [OF this] obtain items new where
      h: "out = (acc @ [?s]) @ items" "tr' = tr @ new"
         "list_all2 (listener_record lb ex new) ls items"
         "sdk_requests new = map (CreateListenerRequest lb) (filter (\<lambda>l. ex (ListenerSpec.ListenerPort l) = None) ls)"
         "length (sdk_requests new) = length new"
      by blast
    have "listener_record lb ex new l ?s"
      using Some by (simp add: listener_record_def)
    with h have "out = acc @ (?s # items) \<and> tr' = tr @ new
       \<and> list_all2 (listener_record lb ex new) (l # ls) (?s # items)
       \<and> sdk_requests new = map (CreateListenerRequest lb) (filter (\<lambda>l. ex (ListenerSpec.ListenerPort l) = None) (l # ls))
       \<and> length (sdk_requests new) = length new"
      using Some by simp
    then show ?thesis by blast
  next
    case None
    obtain i err tr1 where c: "CreateListener e tr lb l = ((i, err), tr1)"
      by (cases "CreateListener e tr lb l") auto
    with Cons.prems None have err: "err = None"
      by (cases err) simp_all
    let ?s = "\<lparr>ListenerPort = ?p, ListenerId = i, Status = ''Active''\<rparr>"
    from Cons.prems None c err have "listenersLoop e lb ex ls tr1 (acc @ [?s]) = (None, tr', out)"
      by simp
    from Cons.IH [OF this] obtain items new where
      h: "out = (acc @ [?s]) @ items" "tr' = tr1 @ new"
         "list_all2 (listener_record lb ex new) ls items"
         "sdk_requests new = map (CreateListenerRequest lb) (filter (\<lambda>l. ex (ListenerSpec.ListenerPort l) = None) ls)"
         "length (sdk_requests new) = length new"
      by blast
    from CreateListener_ok [OF c [unfolded err]] obtain b where
      b: "BodyListenerId b = Some i" "tr1 = tr @ [Sdk (CreateListenerRequest lb l) (Some b, None)]"
      by blast
    let ?ev = "Sdk (CreateListenerRequest lb l) (Some b, None)"
    have r0: "listener_record lb ex (?ev # new) l ?s"
      using None b by (auto simp: listener_record_def)
    have r1: "list_all2 (listener_record lb ex (?ev # new)) ls items"
      using h(3) by (rule list_all2_mono) (rule listener_record_mono)
    from h b r0 r1 None have "out = acc @ (?s # items) \<and> tr' = tr @ (?ev # new)
       \<and> list_all2 (listener_record lb ex (?ev # new)) (l # ls) (?s # items)
       \<and> sdk_requests (?ev # new) = map (CreateListenerRequest lb) (filter (\<lambda>l. ex (ListenerSpec.ListenerPort l) = None) (l # ls))
       \<and> length (sdk_requests (?ev # new)) = length (?ev # new)"
      by simp
    then show ?thesis by blast
  qed
qed

lemma handleListeners_adds_443:
  "handleListeners env_creates [] nlb_two_listeners =
     (None,
      [Sdk (CreateListenerRequest ''nlb-1'' (listener_tcp 443))
         (Some (Body_empty\<lparr>BodyListenerId := Some ''lsn-2''\<rparr>), None)],
      nlb_two_listeners\<lparr>Status := (Status nlb_two_listeners)\<lparr>ListenerStatus :=
        [\<lparr>ListenerPort = 80, ListenerId = ''lsn-1'', Status = ''Active''\<rparr>,
         \<lparr>ListenerPort = 443, ListenerId = ''lsn-2'', Status = ''Active''\<rparr>]\<rparr>\<rparr>)"
  by (simp add: handleListeners_def existingListeners_def CreateListener_def sdk_call_def
      env_creates_def nlb_two_listeners_def example_spec_def listener_tcp_def Body_empty_def)

lemma handleListeners_drops_443:
  "handleListeners env_creates [] nlb_one_listener =
     (None, [],
      nlb_one_listener\<lparr>Status := (Status nlb_one_listener)\<lparr>ListenerStatus :=
        [\<lparr>ListenerPort = 80, ListenerId = ''lsn-1'', Status = ''Active''\<rparr>]\<rparr>\<rparr>)"
  by (simp add: handleListeners_def existingListeners_def CreateListener_def sdk_call_def
      env_creates_def nlb_one_listener_def example_spec_def listener_tcp_def Body_empty_def)

text \<open>
  C1. When \<open>handleListeners\<close> succeeds, the new listener status has one record per
  desired listener, in the order of the spec, each with status Active: for a port that
  the current status has, the record keeps the id of the current status; for a port it
  does not have, the record carries the id that the \<open>CreateListener\<close> request for
  that listener returned. The requests issued are exactly the \<open>CreateListener\<close>
  requests for the desired listeners whose port the current status does not have, in
  spec order, and nothing else happens: no request for a port already present, no
  update, no delete. Records of ports no longer desired are gone from the new status.
  Nothing but the listener status of the object changes. (With unique ports in the
  current status, the id the status has for a port is the id of its record.)
\<close>

theorem handleListeners_diff:
  assumes "handleListeners e tr nlb = (None, tr', nlb')"
  shows "\<exists>new. tr' = tr @ new
     \<and> nlb' = nlb\<lparr>Status := (Status nlb)\<lparr>ListenerStatus := ListenerStatus (Status nlb')\<rparr>\<rparr>
     \<and> list_all2
          (listener_record (LoadBalancerId (Status nlb)) (existingListeners (ListenerStatus (Status nlb))) new)
          (Listeners (Spec nlb)) (ListenerStatus (Status nlb'))
     \<and> sdk_requests new
         = map (CreateListenerRequest (LoadBalancerId (Status nlb)))
             (filter (\<lambda>l. ListenerSpec.ListenerPort l
                             \<notin> ListenerStatus.ListenerPort ` set (ListenerStatus (Status nlb)))
                (Listeners (Spec nlb)))
     \<and> length (sdk_requests new) = length new
     \<and> (distinct (map ListenerStatus.ListenerPort (ListenerStatus (Status nlb))) \<longrightarrow>
          (\<forall>s\<in>set (ListenerStatus (Status nlb)).
             existingListeners (ListenerStatus (Status nlb)) (ListenerStatus.ListenerPort s)
               = Some (ListenerId s)))"
proof -
  let ?lb = "LoadBalancerId (Status nlb)"
  let ?ex = "existingListeners (ListenerStatus (Status nlb))"
  obtain r t out where l: "listenersLoop e ?lb ?ex (Listeners (Spec nlb)) tr [] = (r, t, out)"
    by (cases "listenersLoop e ?lb ?ex (Listeners (Spec nlb)) tr []")
  from assms l have r: "r = None" and t: "t = tr'"
    and n: "nlb' = nlb\<lparr>Status := (Status nlb)\<lparr>ListenerStatus := out\<rparr>\<rparr>"
    by (cases r; simp add: handleListeners_def)+
  from listenersLoop_items [OF l [unfolded r t]] obtain items new where
    h: "out = [] @ items" "tr' = tr @ new"
       "list_all2 (listener_record ?lb ?ex new) (Listeners (Spec nlb)) items"
       "sdk_requests new = map (CreateListenerRequest ?lb)
          (filter (\<lambda>l. ?ex (ListenerSpec.ListenerPort l) = None) (Listeners (Spec nlb)))"
       "length (sdk_requests new) = length new"
    by blast
  from n h(1) have o: "ListenerStatus (Status nlb') = items" by simp
  have d: "distinct (map ListenerStatus.ListenerPort (ListenerStatus (Status nlb))) \<longrightarrow>
          (\<forall>s\<in>set (ListenerStatus (Status nlb)).
             ?ex (ListenerStatus.ListenerPort s) = Some (ListenerId s))"
    using existingListeners_distinct by blast
  have "tr' = tr @ new
     \<and> nlb' = nlb\<lparr>Status := (Status nlb)\<lparr>ListenerStatus := ListenerStatus (Status nlb')\<rparr>\<rparr>
     \<and> list_all2 (listener_record ?lb ?ex new) (Listeners (Spec nlb)) (ListenerStatus (Status nlb'))
     \<and> sdk_requests new
         = map (CreateListenerRequest ?lb)
             (filter (\<lambda>l. ListenerSpec.ListenerPort l
                             \<notin> ListenerStatus.ListenerPort ` set (ListenerStatus (Status nlb)))
                (Listeners (Spec nlb)))
     \<and> length (sdk_requests new) = length new"
    using h n o by (simp add: existingListeners_None)
  with d show ?thesis by blast
qed

theorem handleListeners_diff_witness:
  "fst (handleListeners env_creates [] nlb_two_listeners) = None
   \<and> (\<exists>new. fst (snd (handleListeners env_creates [] nlb_two_listeners)) = [] @ new
        \<and> sdk_requests new = [CreateListenerRequest ''nlb-1'' (listener_tcp 443)]
        \<and> length (sdk_requests new) = length new)
   \<and> map ListenerId (ListenerStatus (Status (snd (snd (handleListeners env_creates [] nlb_two_listeners)))))
       = [''lsn-1'', ''lsn-2'']"
proof -
  from handleListeners_diff [OF handleListeners_adds_443] obtain new where
    h: "[Sdk (CreateListenerRequest ''nlb-1'' (listener_tcp 443))
           (Some (Body_empty\<lparr>BodyListenerId := Some ''lsn-2''\<rparr>), None)] = [] @ new"
       "sdk_requests new
         = map (CreateListenerRequest (LoadBalancerId (Status nlb_two_listeners)))
             (filter (\<lambda>l. ListenerSpec.ListenerPort l
                             \<notin> ListenerStatus.ListenerPort ` set (ListenerStatus (Status nlb_two_listeners)))
                (Listeners (Spec nlb_two_listeners)))"
       "length (sdk_requests new) = length new"
    by blast
  from h(2) have "sdk_requests new = [CreateListenerRequest ''nlb-1'' (listener_tcp 443)]"
    by (simp add: nlb_two_listeners_def example_spec_def listener_tcp_def)
  with h(1,3) show ?thesis
    by (simp add: handleListeners_adds_443)
qed

subsection \<open>Teardown\<close>

lemma emits_refl [simp]: "emits K tr tr"
  by (simp add: emits_def)

lemma emits_trans: "emits K tr tr1 \<Longrightarrow> emits K tr1 tr2 \<Longrightarrow> emits K tr tr2"
  by (auto simp: emits_def)

lemma emits_mono: "emits K tr tr' \<Longrightarrow> K \<subseteq> K' \<Longrightarrow> emits K' tr tr'"
  by (auto simp: emits_def)

lemma emits_snoc: "kind_of ev \<in> K \<Longrightarrow> emits K tr (tr @ [ev])"
  by (simp add: emits_def)

lemma emits_step: "emits K tr tr1 \<Longrightarrow> kind_of ev \<in> K \<Longrightarrow> emits K tr (tr1 @ [ev])"
  by (auto simp: emits_def)

lemma emits_prefix: "emits K tr tr' \<Longrightarrow> prefix tr tr'"
  by (auto simp: emits_def)

lemma is_job_event_kind: "is_job_event ev \<Longrightarrow> kind_of ev \<in> {JobPoll, Pause}"
  by (induction ev rule: is_job_event.induct) simp_all

lemma waitJobFinish_emits:
  "waitJobFinish e tr j = (r, tr') \<Longrightarrow> emits {JobPoll, Pause} tr tr'"
  using waitJobFinish_events [of e tr j r tr'] is_job_event_kind
  by (fastforce simp: emits_def)

lemma DeleteListener_trace:
  assumes "DeleteListener e t i = (r, t')"
  shows "\<exists>ex. t' = t @ Sdk (DeleteListenerRequest i) (sdk e t (DeleteListenerRequest i)) # ex
           \<and> (\<forall>ev\<in>set ex. kind_of ev \<in> {JobPoll, Pause})"
proof -
  let ?d = "sdk e t (DeleteListenerRequest i)"
  let ?t1 = "t @ [Sdk (DeleteListenerRequest i) ?d]"
  show ?thesis
  proof (cases "\<exists>b j. ?d = (Some b, None) \<and> BodyJobId b = Some j")
    case True
    then obtain b j where d: "?d = (Some b, None)" "BodyJobId b = Some j" by blast
    with assms have "waitJobFinish e ?t1 j = (r, t')"
      by (simp add: DeleteListener_def sdk_call_def)
    from waitJobFinish_emits [OF this] show ?thesis by (auto simp: emits_def)
  next
    case False
    obtain x y where d: "?d = (x, y)" by (cases ?d)
    from False d assms have "t' = ?t1"
      by (cases y; cases x) (auto simp: DeleteListener_def sdk_call_def split: option.splits if_splits)
    then show ?thesis by simp
  qed
qed

lemma DeleteListener_NotFound:
  "NotFound (sdk e t (DeleteListenerRequest i)) \<Longrightarrow>
   DeleteListener e t i = (None, t @ [Sdk (DeleteListenerRequest i) (sdk e t (DeleteListenerRequest i))])"
  by (cases "sdk e t (DeleteListenerRequest i)")
     (auto simp: DeleteListener_def sdk_call_def NotFound_def split: option.splits)

lemma issueDelete_trace:
  assumes "issueDelete e t l = (r, t')"
  shows "emits {DeleteLB, JobPoll, Pause} t t'"
  using issueDelete_events [OF assms] is_job_event_kind
  by (fastforce simp: emits_def)

lemma DeleteLoadBalancer_trace:
  assumes "DeleteLoadBalancer e t l = (r, t')"
  shows "\<exists>ex. t' = t @ Sdk (GetLoadBalancerAttributeRequest l) (sdk e t (GetLoadBalancerAttributeRequest l)) # ex
           \<and> (\<forall>ev\<in>set ex. kind_of ev \<in> {Logged, Protect, DeleteLB, JobPoll, Pause})"
proof -
  let ?g = "sdk e t (GetLoadBalancerAttributeRequest l)"
  let ?t1 = "t @ [Sdk (GetLoadBalancerAttributeRequest l) ?g]"
  let ?p = "sdk e (?t1 @ checkWarning ?g) (UpdateLoadBalancerProtectionRequest l False None)"
  let ?t2 = "?t1 @ checkWarning ?g @ [Sdk (UpdateLoadBalancerProtectionRequest l False None) ?p]"
  have w: "(\<forall>ev\<in>set (checkWarning ?g). kind_of ev \<in> {Logged})" "(\<forall>ev\<in>set (protectionWarning ?p). kind_of ev \<in> {Logged})"
    by (auto simp: checkWarning_def protectionWarning_def split: option.splits)
  show ?thesis
  proof (cases "NotFound ?g")
    case True
    with assms have "t' = ?t1" by (simp add: DeleteLoadBalancer_check)
    then show ?thesis by simp
  next
    case False
    show ?thesis
    proof (cases "NotFound ?p")
      case True
      with False assms have "t' = ?t2" by (simp add: DeleteLoadBalancer_check disableProtection_eq)
      with w show ?thesis by auto
    next
      case np: False
      with False assms have "issueDelete e (?t2 @ protectionWarning ?p) l = (r, t')"
        by (simp add: DeleteLoadBalancer_check disableProtection_eq)
      from issueDelete_trace [OF this] obtain ex where
        "t' = (?t2 @ protectionWarning ?p) @ ex" "(\<forall>ev\<in>set ex. kind_of ev \<in> {DeleteLB, JobPoll, Pause})"
        by (auto simp: emits_def)
      with w have "t' = t @ Sdk (GetLoadBalancerAttributeRequest l) ?g
            # (checkWarning ?g @ [Sdk (UpdateLoadBalancerProtectionRequest l False None) ?p]
                 @ protectionWarning ?p @ ex)
          \<and> (\<forall>ev\<in>set (checkWarning ?g @ [Sdk (UpdateLoadBalancerProtectionRequest l False None) ?p]
                 @ protectionWarning ?p @ ex). kind_of ev \<in> {Logged, Protect, DeleteLB, JobPoll, Pause})"
        by auto
      then show ?thesis by blast
    qed
  qed
qed

lemma listener_deletes_append [simp]:
  "listener_deletes (xs @ ys) = listener_deletes xs @ listener_deletes ys"
  by (induction xs rule: listener_deletes.induct) simp_all

lemma listener_deletes_none:
  "\<forall>ev\<in>set ex. kind_of ev \<noteq> DeleteLsn \<Longrightarrow> listener_deletes ex = []"
  by (induction ex rule: listener_deletes.induct) simp_all

lemma split_foreign:
  assumes "xs @ ys = s @ ev # post" and "ev \<notin> set xs"
  shows "\<exists>s'. s = xs @ s' \<and> ys = s' @ ev # post"
proof -
  from assms(1) obtain us where
    "(xs = s @ us \<and> us @ ys = ev # post) \<or> (xs @ us = s \<and> ys = us @ ev # post)"
    by (auto simp: append_eq_append_conv2)
  then show ?thesis
  proof
    assume a: "xs = s @ us \<and> us @ ys = ev # post"
    show ?thesis
    proof (cases us)
      case Nil
      with a show ?thesis by simp
    next
      case (Cons u us')
      with a have "ev \<in> set xs" by simp
      with assms(2) show ?thesis by simp
    qed
  next
    assume "xs @ us = s \<and> ys = us @ ev # post"
    then show ?thesis by blast
  qed
qed

lemma deleteListeners_trace:
  "deleteListeners e t ls = (r, t') \<Longrightarrow>
     \<exists>ex. t' = t @ ex \<and> (\<forall>ev\<in>set ex. kind_of ev \<in> {DeleteLsn, JobPoll, Pause, Recorded})
       \<and> prefix (listener_deletes ex) (filter (\<lambda>i. i \<noteq> []) (map ListenerId ls))
       \<and> (r = None \<longrightarrow> listener_deletes ex = filter (\<lambda>i. i \<noteq> []) (map ListenerId ls))"
proof (induction ls arbitrary: t)
  case Nil
  then show ?case by simp
next
  case (Cons l ls)
  show ?case
  proof (cases "ListenerId l = []")
    case True
    with Cons.prems have "deleteListeners e t ls = (r, t')" by simp
    from Cons.IH [OF this] True show ?thesis by simp
  next
    case False
    obtain r1 t1 where d: "DeleteListener e t (ListenerId l) = (r1, t1)"
      by (cases "DeleteListener e t (ListenerId l)")
    from DeleteListener_trace [OF d] obtain jobs where
      j: "t1 = t @ Sdk (DeleteListenerRequest (ListenerId l)) (sdk e t (DeleteListenerRequest (ListenerId l))) # jobs"
         "\<forall>ev\<in>set jobs. kind_of ev \<in> {JobPoll, Pause}"
      by blast
    from j(2) have jn: "listener_deletes jobs = []"
      by (intro listener_deletes_none) auto
    show ?thesis
    proof (cases r1)
      case (Some err)
      let ?ex = "Sdk (DeleteListenerRequest (ListenerId l)) (sdk e t (DeleteListenerRequest (ListenerId l)))
                 # jobs @ [RecorderEvent ''Warning'' ReasonDeletionError (''Failed to delete listener: '' @ err)]"
      from Cons.prems False d Some j have "t' = t @ ?ex" "r = Some err" by simp_all
      moreover have "\<forall>ev\<in>set ?ex. kind_of ev \<in> {DeleteLsn, JobPoll, Pause, Recorded}"
        using j(2) by auto
      moreover have "prefix (listener_deletes ?ex) (filter (\<lambda>i. i \<noteq> []) (map ListenerId (l # ls)))"
        using False jn by simp
      ultimately show ?thesis by blast
    next
      case None
      with Cons.prems False d have "deleteListeners e t1 ls = (r, t')" by simp
      from Cons.IH [OF this] obtain ex where
        h: "t' = t1 @ ex" "\<forall>ev\<in>set ex. kind_of ev \<in> {DeleteLsn, JobPoll, Pause, Recorded}"
           "prefix (listener_deletes ex) (filter (\<lambda>i. i \<noteq> []) (map ListenerId ls))"
           "r = None \<longrightarrow> listener_deletes ex = filter (\<lambda>i. i \<noteq> []) (map ListenerId ls)"
        by blast
      let ?ex = "Sdk (DeleteListenerRequest (ListenerId l)) (sdk e t (DeleteListenerRequest (ListenerId l)))
                 # jobs @ ex"
      from h(1) j(1) have "t' = t @ ?ex" by simp
      moreover have "\<forall>ev\<in>set ?ex. kind_of ev \<in> {DeleteLsn, JobPoll, Pause, Recorded}"
        using j(2) h(2) by auto
      moreover have "prefix (listener_deletes ?ex) (filter (\<lambda>i. i \<noteq> []) (map ListenerId (l # ls)))"
        using False jn h(3) by simp
      moreover have "r = None \<longrightarrow> listener_deletes ?ex = filter (\<lambda>i. i \<noteq> []) (map ListenerId (l # ls))"
        using False jn h(4) by simp
      ultimately show ?thesis by blast
    qed
  qed
qed

lemma deleteListeners_success:
  "deleteListeners e t ls = (None, t') \<Longrightarrow> i \<in> set (filter (\<lambda>i. i \<noteq> []) (map ListenerId ls)) \<Longrightarrow>
     \<exists>s s'. prefix t s \<and> prefix s' t' \<and> DeleteListener e s i = (None, s')"
proof (induction ls arbitrary: t)
  case Nil
  then show ?case by simp
next
  case (Cons l ls)
  show ?case
  proof (cases "ListenerId l = []")
    case True
    with Cons.prems have "deleteListeners e t ls = (None, t')"
      "i \<in> set (filter (\<lambda>i. i \<noteq> []) (map ListenerId ls))" by simp_all
    from Cons.IH [OF this] show ?thesis .
  next
    case False
    obtain r1 t1 where d: "DeleteListener e t (ListenerId l) = (r1, t1)"
      by (cases "DeleteListener e t (ListenerId l)")
    from Cons.prems(1) False d have r1: "r1 = None" by (cases r1) simp_all
    from Cons.prems(1) False d r1 have rest: "deleteListeners e t1 ls = (None, t')" by simp
    from deleteListeners_trace [OF rest] have p1: "prefix t1 t'" by auto
    from DeleteListener_trace [OF d] have p0: "prefix t t1" by auto
    show ?thesis
    proof (cases "i = ListenerId l")
      case True
      with d r1 p1 have "prefix t t \<and> prefix t1 t' \<and> DeleteListener e t i = (None, t1)" by simp
      then show ?thesis by blast
    next
      case ne: False
      with Cons.prems(2) False have "i \<in> set (filter (\<lambda>i. i \<noteq> []) (map ListenerId ls))" by auto
      from Cons.IH [OF rest this] obtain s s' where
        "prefix t1 s" "prefix s' t'" "DeleteListener e s i = (None, s')" by blast
      with p0 have "prefix t s \<and> prefix s' t' \<and> DeleteListener e s i = (None, s')"
        by (auto intro: prefix_order.trans)
      then show ?thesis by blast
    qed
  qed
qed

lemma deleteListeners_calls:
  "deleteListeners e t ls = (r, t') \<Longrightarrow> t' = s @ ev # post \<Longrightarrow> prefix t s \<Longrightarrow> kind_of ev = DeleteLsn \<Longrightarrow>
     \<exists>i. ev = Sdk (DeleteListenerRequest i) (sdk e s (DeleteListenerRequest i))
        \<and> prefix (snd (DeleteListener e s i)) t'
        \<and> (fst (DeleteListener e s i) = None \<or> (r \<noteq> None \<and> fst (DeleteListener e s i) = r))"
proof (induction ls arbitrary: t)
  case Nil
  then have "t = s @ ev # post" "prefix t s" by simp_all
  then show ?case by (auto simp: prefix_def)
next
  case (Cons l ls)
  show ?case
  proof (cases "ListenerId l = []")
    case True
    with Cons.prems(1) have "deleteListeners e t ls = (r, t')" by simp
    from Cons.IH [OF this Cons.prems(2,3,4)] show ?thesis .
  next
    case False
    let ?i = "ListenerId l"
    let ?call = "Sdk (DeleteListenerRequest ?i) (sdk e t (DeleteListenerRequest ?i))"
    obtain r1 t1 where d: "DeleteListener e t ?i = (r1, t1)"
      by (cases "DeleteListener e t ?i")
    from DeleteListener_trace [OF d] obtain jobs where
      j: "t1 = t @ ?call # jobs" "\<forall>ev\<in>set jobs. kind_of ev \<in> {JobPoll, Pause}"
      by blast
    from Cons.prems(3) obtain s0 where s0: "s = t @ s0" by (auto simp: prefix_def)
    obtain tail where tail: "t' = t1 @ tail"
      "\<forall>x\<in>set tail. kind_of x = DeleteLsn \<longrightarrow> r1 = None"
      "r1 = None \<longrightarrow> deleteListeners e t1 ls = (r, t')"
      "r1 \<noteq> None \<longrightarrow> r = r1"
    proof (cases r1)
      case (Some err)
      with Cons.prems(1) False d have
        "t' = t1 @ [RecorderEvent ''Warning'' ReasonDeletionError (''Failed to delete listener: '' @ err)]"
        "r = r1" by simp_all
      with Some that show ?thesis by simp
    next
      case None
      with Cons.prems(1) False d have rest: "deleteListeners e t1 ls = (r, t')" by simp
      from deleteListeners_trace [OF rest] obtain ex where "t' = t1 @ ex" by blast
      with None rest that show ?thesis by simp
    qed
    from tail(1) j(1) Cons.prems(2) s0 have eq: "(?call # jobs) @ tail = s0 @ ev # post" by simp
    show ?thesis
    proof (cases s0)
      case Nil
      with eq have ev: "ev = ?call" by simp
      from Nil s0 have st: "s = t" by simp
      have "prefix t1 t'" using tail(1) by simp
      with ev st d tail(4) have "ev = Sdk (DeleteListenerRequest ?i) (sdk e s (DeleteListenerRequest ?i))
        \<and> prefix (snd (DeleteListener e s ?i)) t'
        \<and> (fst (DeleteListener e s ?i) = None \<or> (r \<noteq> None \<and> fst (DeleteListener e s ?i) = r))"
        by (cases r1) auto
      then show ?thesis by blast
    next
      case (Cons c s1)
      with eq have eq1: "jobs @ tail = s1 @ ev # post" by simp
      from j(2) Cons.prems(4) have "ev \<notin> set jobs" by auto
      from split_foreign [OF eq1 this] obtain s' where
        s': "s1 = jobs @ s'" "tail = s' @ ev # post" by blast
      from s'(2) Cons.prems(4) tail(2) have "r1 = None" by simp
      with tail(3) have rest: "deleteListeners e t1 ls = (r, t')" by simp
      from s0 Cons s'(1) eq j(1) have st: "s = t1 @ s'" by simp
      then have "prefix t1 s" by simp
      from Cons.IH [OF rest Cons.prems(2) this Cons.prems(4)] show ?thesis .
    qed
  qed
qed

lemma split_kind:
  assumes "xs @ ys = s @ ev # post" and "\<forall>x\<in>set xs. kind_of x \<in> K" and "kind_of ev \<notin> K"
  shows "\<exists>s'. s = xs @ s' \<and> ys = s' @ ev # post"
proof -
  from assms(2,3) have "ev \<notin> set xs" by auto
  from split_foreign [OF assms(1) this] show ?thesis .
qed

lemma markDeleting_structure:
  assumes "markDeleting e tr nlb = (t0, nlb1)"
  shows "\<exists>m. t0 = tr @ m \<and> (\<forall>ev\<in>set m. kind_of ev \<in> {StatusWrite})
           \<and> Finalizers nlb1 = Finalizers nlb
           \<and> ListenerStatus (Status nlb1) = ListenerStatus (Status nlb)
           \<and> LoadBalancerId (Status nlb1) = LoadBalancerId (Status nlb)"
proof (cases "LoadBalancerStatus (Status nlb) \<noteq> ''Deleting''")
  case True
  let ?n = "updateCondition e tr (nlb\<lparr>Status := (Status nlb)\<lparr>LoadBalancerStatus := ''Deleting''\<rparr>\<rparr>)
              ConditionTypeReady ConditionFalse ''Deleting'' ''NLB is being deleted''"
  from True assms have "t0 = tr @ [K8s (StatusUpdate ?n) (k8s e tr (StatusUpdate ?n))]" "nlb1 = ?n"
    by (auto simp: markDeleting_def k8s_call_def Let_def)
  then show ?thesis by simp
next
  case False
  with assms have "t0 = tr @ []" "nlb1 = nlb" by (simp_all add: markDeleting_def)
  then show ?thesis by simp
qed

lemma removeFinalizer_eq:
  "removeFinalizer e t x =
     (Inr (Result_empty, k8s e t (Update (RemoveFinalizer x NLBFinalizer))),
      t @ [K8s (Update (RemoveFinalizer x NLBFinalizer)) (k8s e t (Update (RemoveFinalizer x NLBFinalizer)))],
      RemoveFinalizer x NLBFinalizer)"
  by (simp add: removeFinalizer_def k8s_call_def Let_def split: option.splits)

lemma handleDeletion_structure:
  assumes fin: "NLBFinalizer \<in> set (Finalizers nlb)"
    and run: "handleDeletion e tr nlb = (res, T, nlb')"
  shows "\<exists>m ex lbx fx r1 r2 nlb1.
      T = tr @ m @ ex @ lbx @ fx
    \<and> (\<forall>ev\<in>set m. kind_of ev \<in> {StatusWrite})
    \<and> deleteListeners e (tr @ m) (ListenerStatus (Status nlb)) = (r1, tr @ m @ ex)
    \<and> Finalizers nlb1 = Finalizers nlb
    \<and> (r1 \<noteq> None \<longrightarrow> lbx = [] \<and> fx = [] \<and> res = Inr (requeueAfter (30 * Second), r1) \<and> nlb' = nlb1)
    \<and> (r1 = None \<longrightarrow>
          (if LoadBalancerId (Status nlb) = [] then lbx = [] \<and> r2 = None
           else (\<exists>c rec. lbx = c @ [rec] \<and> kind_of rec = Recorded
                   \<and> DeleteLoadBalancer e (tr @ m @ ex) (LoadBalancerId (Status nlb)) = (r2, tr @ m @ ex @ c)))
        \<and> (r2 \<noteq> None \<longrightarrow> fx = [] \<and> res = Inr (requeueAfter (30 * Second), r2) \<and> nlb' = nlb1)
        \<and> (r2 = None \<longrightarrow>
              fx = [K8s (Update nlb') (k8s e (tr @ m @ ex @ lbx) (Update nlb'))]
            \<and> nlb' = RemoveFinalizer nlb1 NLBFinalizer
            \<and> res = Inr (Result_empty, k8s e (tr @ m @ ex @ lbx) (Update nlb'))))"
proof -
  obtain t0 nlb1 where md: "markDeleting e tr nlb = (t0, nlb1)"
    by (cases "markDeleting e tr nlb")
  from markDeleting_structure [OF md] obtain m where
    m: "t0 = tr @ m" "\<forall>ev\<in>set m. kind_of ev \<in> {StatusWrite}" "Finalizers nlb1 = Finalizers nlb"
       "ListenerStatus (Status nlb1) = ListenerStatus (Status nlb)"
       "LoadBalancerId (Status nlb1) = LoadBalancerId (Status nlb)"
    by blast
  obtain r1 t1 where dl: "deleteListeners e t0 (ListenerStatus (Status nlb)) = (r1, t1)"
    by (cases "deleteListeners e t0 (ListenerStatus (Status nlb))")
  from deleteListeners_trace [OF dl] obtain ex where ex: "t1 = t0 @ ex" by blast
  let ?lb = "LoadBalancerId (Status nlb)"
  from fin have cf: "ContainsFinalizer nlb NLBFinalizer" by (simp add: ContainsFinalizer_def)
  show ?thesis
  proof (cases r1)
    case (Some err)
    with run cf md dl m have "res = Inr (requeueAfter (30 * Second), r1)" "T = t1" "nlb' = nlb1"
      by (simp_all add: handleDeletion_def)
    with Some m ex dl have "T = tr @ m @ ex @ [] @ []
      \<and> (\<forall>ev\<in>set m. kind_of ev \<in> {StatusWrite})
      \<and> deleteListeners e (tr @ m) (ListenerStatus (Status nlb)) = (r1, tr @ m @ ex)
      \<and> Finalizers nlb1 = Finalizers nlb
      \<and> (r1 \<noteq> None \<longrightarrow> [] = [] \<and> [] = [] \<and> res = Inr (requeueAfter (30 * Second), r1) \<and> nlb' = nlb1)
      \<and> r1 \<noteq> None"
      by simp
    then show ?thesis by blast
  next
    case None
    show ?thesis
    proof (cases "?lb = []")
      case True
      with run cf md dl m None have "(res, T, nlb') = removeFinalizer e t1 nlb1"
        by (simp add: handleDeletion_def)
      then have "T = t1 @ [K8s (Update nlb') (k8s e t1 (Update nlb'))]"
        "nlb' = RemoveFinalizer nlb1 NLBFinalizer" "res = Inr (Result_empty, k8s e t1 (Update nlb'))"
        by (simp_all add: removeFinalizer_eq)
      with None True m ex dl have "T = tr @ m @ ex @ [] @ [K8s (Update nlb') (k8s e (tr @ m @ ex @ []) (Update nlb'))]
        \<and> (\<forall>ev\<in>set m. kind_of ev \<in> {StatusWrite})
        \<and> deleteListeners e (tr @ m) (ListenerStatus (Status nlb)) = (r1, tr @ m @ ex)
        \<and> Finalizers nlb1 = Finalizers nlb
        \<and> r1 = None \<and> ?lb = [] \<and> (None :: error option) = None
        \<and> nlb' = RemoveFinalizer nlb1 NLBFinalizer
        \<and> res = Inr (Result_empty, k8s e (tr @ m @ ex @ []) (Update nlb'))"
        by simp
      then show ?thesis by (intro exI [of _ m] exI [of _ ex] exI [of _ "[]"]
          exI [of _ "[K8s (Update nlb') (k8s e (tr @ m @ ex @ []) (Update nlb'))]"]
          exI [of _ r1] exI [of _ "None"] exI [of _ nlb1]) simp
    next
      case False
      obtain r2 t2 where d2: "DeleteLoadBalancer e t1 ?lb = (r2, t2)"
        by (cases "DeleteLoadBalancer e t1 ?lb")
      from DeleteLoadBalancer_trace [OF d2] obtain c where c: "t2 = t1 @ c" by auto
      show ?thesis
      proof (cases r2)
        case (Some err)
        let ?rec = "RecorderEvent ''Warning'' ReasonDeletionError (''Failed to delete NLB: '' @ err)"
        from run cf md dl m None False d2 Some have
          "res = Inr (requeueAfter (30 * Second), r2)" "T = t2 @ [?rec]" "nlb' = nlb1"
          by (simp_all add: handleDeletion_def)
        with None False m ex dl c d2 Some show ?thesis
          by (intro exI [of _ m] exI [of _ ex] exI [of _ "c @ [?rec]"] exI [of _ "[]"]
              exI [of _ r1] exI [of _ r2] exI [of _ nlb1]) simp
      next
        case r2n: None
        let ?rec = "RecorderEvent ''Normal'' ReasonDeletionSuccess (''Successfully deleted NLB: '' @ ?lb)"
        from run cf md dl m None False d2 r2n have "(res, T, nlb') = removeFinalizer e (t2 @ [?rec]) nlb1"
          by (simp add: handleDeletion_def)
        then have "T = (t2 @ [?rec]) @ [K8s (Update nlb') (k8s e (t2 @ [?rec]) (Update nlb'))]"
          "nlb' = RemoveFinalizer nlb1 NLBFinalizer" "res = Inr (Result_empty, k8s e (t2 @ [?rec]) (Update nlb'))"
          by (simp_all add: removeFinalizer_eq)
        with None False m ex dl c d2 r2n show ?thesis
          by (intro exI [of _ m] exI [of _ ex] exI [of _ "c @ [?rec]"]
              exI [of _ "[K8s (Update nlb') (k8s e (tr @ m @ ex @ c @ [?rec]) (Update nlb'))]"]
              exI [of _ r1] exI [of _ r2] exI [of _ nlb1]) simp
      qed
    qed
  qed
qed

lemma split_foreign_right:
  assumes "xs @ ys = s @ ev # post" and "ev \<notin> set ys"
  shows "\<exists>post'. xs = s @ ev # post' \<and> post = post' @ ys"
proof -
  from assms(1) obtain us where
    "(xs = s @ us \<and> us @ ys = ev # post) \<or> (xs @ us = s \<and> ys = us @ ev # post)"
    by (auto simp: append_eq_append_conv2)
  then show ?thesis
  proof
    assume a: "xs = s @ us \<and> us @ ys = ev # post"
    show ?thesis
    proof (cases us)
      case Nil
      with a assms(2) show ?thesis by auto
    next
      case (Cons u us')
      with a show ?thesis by simp
    qed
  next
    assume "xs @ us = s \<and> ys = us @ ev # post"
    with assms(2) show ?thesis by auto
  qed
qed

text \<open>
  C2. In a Terminating reconciliation (the finalizer being set): the requests that
  delete listeners are issued in the listed order of the status records. Before any
  request that belongs to the delete of the load balancer (its existence check, the
  disabling of the protection, the delete request), the delete of every recorded
  listener has been requested and has returned success. The update that removes the
  finalizer is the last event of the pass, and it is issued only after every recorded
  listener's delete and, where a load balancer is recorded, the delete of the load
  balancer have returned success; the finalizer leaves the object in no other way. A
  listener delete or a load-balancer delete that returns an error ends the pass with a
  requeue after 30 seconds and that error, with the finalizers unchanged and no update
  of the object.
\<close>

theorem handleDeletion_order:
  assumes fin: "NLBFinalizer \<in> set (Finalizers nlb)"
    and run: "handleDeletion e tr nlb = (res, T, nlb')"
  shows "prefix tr T
    \<and> prefix (listener_deletes (drop (length tr) T)) (recorded_listeners nlb)
    \<and> (\<forall>s ev post. T = s @ ev # post \<and> prefix tr s \<and> kind_of ev \<in> {GetLB, Protect, DeleteLB} \<longrightarrow>
          listener_deletes (drop (length tr) s) = recorded_listeners nlb \<and> listeners_deleted e tr s nlb)
    \<and> (\<forall>s x r post. T = s @ K8s (Update x) r # post \<and> prefix tr s \<longrightarrow>
          post = [] \<and> x = nlb' \<and> listeners_deleted e tr s nlb \<and> load_balancer_deleted e tr s nlb)
    \<and> (NLBFinalizer \<in> set (Finalizers nlb') \<or> (\<exists>s r. T = s @ [K8s (Update nlb') r] \<and> prefix tr s))
    \<and> (\<forall>s i x post err. T = s @ Sdk (DeleteListenerRequest i) x # post \<and> prefix tr s
            \<and> fst (DeleteListener e s i) = Some err \<longrightarrow>
          teardown_failed tr nlb (res, T, nlb') err)
    \<and> (\<forall>s l x post err. T = s @ Sdk (GetLoadBalancerAttributeRequest l) x # post \<and> prefix tr s
            \<and> fst (DeleteLoadBalancer e s l) = Some err \<longrightarrow>
          l = LoadBalancerId (Status nlb) \<and> teardown_failed tr nlb (res, T, nlb') err)"
proof -
  let ?ls = "ListenerStatus (Status nlb)"
  let ?lb = "LoadBalancerId (Status nlb)"
  let ?ids = "recorded_listeners nlb"
  from handleDeletion_structure [OF fin run] obtain m ex lbx fx r1 r2 nlb1 where
    T: "T = tr @ m @ ex @ lbx @ fx"
    and km: "\<forall>ev\<in>set m. kind_of ev \<in> {StatusWrite}"
    and dl: "deleteListeners e (tr @ m) ?ls = (r1, tr @ m @ ex)"
    and f1: "Finalizers nlb1 = Finalizers nlb"
    and A: "r1 \<noteq> None \<longrightarrow> lbx = [] \<and> fx = [] \<and> res = Inr (requeueAfter (30 * Second), r1) \<and> nlb' = nlb1"
    and B: "r1 = None \<longrightarrow>
          (if ?lb = [] then lbx = [] \<and> r2 = None
           else (\<exists>c rec. lbx = c @ [rec] \<and> kind_of rec = Recorded
                   \<and> DeleteLoadBalancer e (tr @ m @ ex) ?lb = (r2, tr @ m @ ex @ c)))
        \<and> (r2 \<noteq> None \<longrightarrow> fx = [] \<and> res = Inr (requeueAfter (30 * Second), r2) \<and> nlb' = nlb1)
        \<and> (r2 = None \<longrightarrow>
              fx = [K8s (Update nlb') (k8s e (tr @ m @ ex @ lbx) (Update nlb'))]
            \<and> nlb' = RemoveFinalizer nlb1 NLBFinalizer
            \<and> res = Inr (Result_empty, k8s e (tr @ m @ ex @ lbx) (Update nlb')))"
    by blast
  from deleteListeners_trace [OF dl] have
    kex: "\<forall>ev\<in>set ex. kind_of ev \<in> {DeleteLsn, JobPoll, Pause, Recorded}"
    and pex: "prefix (listener_deletes ex) ?ids"
    and oex: "r1 = None \<longrightarrow> listener_deletes ex = ?ids"
    by (auto simp: recorded_listeners_def)
  have lbx_shape: "lbx = [] \<or> (r1 = None \<and> ?lb \<noteq> [] \<and> (\<exists>g cx rec. lbx = Sdk (GetLoadBalancerAttributeRequest ?lb) g # cx @ [rec]
        \<and> (\<forall>ev\<in>set (cx @ [rec]). kind_of ev \<in> {Logged, Protect, DeleteLB, JobPoll, Pause, Recorded})
        \<and> (\<exists>b. DeleteLoadBalancer e (tr @ m @ ex) ?lb = (r2, b) \<and> prefix b (tr @ m @ ex @ lbx))))"
  proof (cases "lbx = []")
    case True
    then show ?thesis by simp
  next
    case False
    with A have r1n: "r1 = None" by auto
    with B False have lbn: "?lb \<noteq> []" by (auto split: if_splits)
    with B r1n obtain c rec where
      c: "lbx = c @ [rec]" "kind_of rec = Recorded"
         "DeleteLoadBalancer e (tr @ m @ ex) ?lb = (r2, tr @ m @ ex @ c)"
      by (auto split: if_splits)
    from DeleteLoadBalancer_trace [OF c(3)] obtain cx where
      cx: "c = Sdk (GetLoadBalancerAttributeRequest ?lb) (sdk e (tr @ m @ ex) (GetLoadBalancerAttributeRequest ?lb)) # cx"
          "\<forall>ev\<in>set cx. kind_of ev \<in> {Logged, Protect, DeleteLB, JobPoll, Pause}"
      by auto
    from c cx have "lbx = Sdk (GetLoadBalancerAttributeRequest ?lb) (sdk e (tr @ m @ ex) (GetLoadBalancerAttributeRequest ?lb)) # cx @ [rec]
        \<and> (\<forall>ev\<in>set (cx @ [rec]). kind_of ev \<in> {Logged, Protect, DeleteLB, JobPoll, Pause, Recorded})
        \<and> DeleteLoadBalancer e (tr @ m @ ex) ?lb = (r2, tr @ m @ ex @ c) \<and> prefix (tr @ m @ ex @ c) (tr @ m @ ex @ lbx)"
      by auto
    with r1n lbn show ?thesis by blast
  qed
  then have klbx: "\<forall>ev\<in>set lbx. kind_of ev \<in> {GetLB, Logged, Protect, DeleteLB, JobPoll, Pause, Recorded}"
    by auto
  have fx_shape: "fx = [] \<or> (r1 = None \<and> r2 = None \<and> fx = [K8s (Update nlb') (k8s e (tr @ m @ ex @ lbx) (Update nlb'))])"
    using A B by (cases r1; cases r2) auto
  then have kfx: "\<forall>ev\<in>set fx. kind_of ev \<in> {ObjectWrite}" by auto
  have ld_m: "listener_deletes m = []" using km by (intro listener_deletes_none) auto
  have ld_lbx: "listener_deletes lbx = []" using klbx by (intro listener_deletes_none) auto
  have ld_fx: "listener_deletes fx = []" using kfx by (intro listener_deletes_none) auto
  have ok: "r1 = None \<Longrightarrow> prefix (tr @ m @ ex) s \<Longrightarrow> listeners_deleted e tr s nlb" for s
  proof -
    assume r: "r1 = None" and p: "prefix (tr @ m @ ex) s"
    show "listeners_deleted e tr s nlb"
      unfolding listeners_deleted_def
    proof
      fix i assume "i \<in> set ?ids"
      then have "i \<in> set (filter (\<lambda>i. i \<noteq> []) (map ListenerId ?ls))" by (simp add: recorded_listeners_def)
      from deleteListeners_success [OF dl [unfolded r] this] obtain a b where
        ab: "prefix (tr @ m) a" "prefix b (tr @ m @ ex)" "DeleteListener e a i = (None, b)" by blast
      have "prefix tr (tr @ m)" by simp
      with ab(1) have "prefix tr a" by (metis prefix_order.trans)
      moreover from ab(2) p have "prefix b s" by (metis prefix_order.trans)
      ultimately show "\<exists>a b. prefix tr a \<and> prefix b s \<and> DeleteListener e a i = (None, b)"
        using ab(3) by blast
    qed
  qed
  have c1: "prefix tr T" using T by simp
  have c2: "prefix (listener_deletes (drop (length tr) T)) ?ids"
    using T pex ld_m ld_lbx ld_fx by simp
  have c3: "listener_deletes (drop (length tr) s) = ?ids \<and> listeners_deleted e tr s nlb"
    if h: "T = s @ ev # post" "prefix tr s" "kind_of ev \<in> {GetLB, Protect, DeleteLB}" for s ev post
  proof -
    from h(2) obtain s0 where s0: "s = tr @ s0" by (auto simp: prefix_def)
    with T h(1) have e0: "m @ (ex @ lbx @ fx) = s0 @ ev # post" by simp
    from split_kind [OF e0 km] h(3) obtain s1 where s1: "s0 = m @ s1" "ex @ (lbx @ fx) = s1 @ ev # post"
      by auto
    from split_kind [OF s1(2) kex] h(3) obtain s2 where s2: "s1 = ex @ s2" "lbx @ fx = s2 @ ev # post"
      by auto
    from s2(2) A have r: "r1 = None" by auto
    from s2(2) have "set s2 \<subseteq> set (lbx @ fx)" by auto
    with klbx kfx have "\<forall>x\<in>set s2. kind_of x \<noteq> DeleteLsn" by fastforce
    then have "listener_deletes s2 = []" by (rule listener_deletes_none)
    with s0 s1 s2 ld_m oex r have "listener_deletes (drop (length tr) s) = ?ids" by simp
    moreover from s0 s1 s2 have "prefix (tr @ m @ ex) s" by simp
    from ok [OF r this] have "listeners_deleted e tr s nlb" .
    ultimately show ?thesis by simp
  qed
  have c4: "post = [] \<and> x = nlb' \<and> listeners_deleted e tr s nlb \<and> load_balancer_deleted e tr s nlb"
    if h: "T = s @ K8s (Update x) r # post" "prefix tr s" for s x r post
  proof -
    let ?ev = "K8s (Update x) r"
    from h(2) obtain s0 where s0: "s = tr @ s0" by (auto simp: prefix_def)
    with T h(1) have e0: "m @ (ex @ lbx @ fx) = s0 @ ?ev # post" by simp
    from split_kind [OF e0 km] obtain s1 where s1: "s0 = m @ s1" "ex @ (lbx @ fx) = s1 @ ?ev # post"
      by auto
    from split_kind [OF s1(2) kex] obtain s2 where s2: "s1 = ex @ s2" "lbx @ fx = s2 @ ?ev # post"
      by auto
    from split_kind [OF s2(2) klbx] obtain s3 where s3: "s2 = lbx @ s3" "fx = s3 @ ?ev # post"
      by auto
    from s3(2) fx_shape have r: "r1 = None" "r2 = None"
      and fx: "fx = [K8s (Update nlb') (k8s e (tr @ m @ ex @ lbx) (Update nlb'))]"
      by auto
    from s3(2) fx have p: "s3 = []" "post = []" "x = nlb'"
      by (auto simp: append_eq_Cons_conv Cons_eq_append_conv)
    from s0 s1 s2 s3 p have s: "s = tr @ m @ ex @ lbx" by simp
    then have "prefix (tr @ m @ ex) s" by simp
    from ok [OF r(1) this] have l: "listeners_deleted e tr s nlb" .
    have "load_balancer_deleted e tr s nlb"
      unfolding load_balancer_deleted_def
    proof
      assume lbn: "?lb \<noteq> []"
      with B r(1) have "lbx \<noteq> []" by auto
      with lbx_shape obtain b where "DeleteLoadBalancer e (tr @ m @ ex) ?lb = (r2, b)" "prefix b (tr @ m @ ex @ lbx)"
        by auto
      with r(2) s have "prefix tr (tr @ m @ ex) \<and> prefix b s \<and> DeleteLoadBalancer e (tr @ m @ ex) ?lb = (None, b)"
        by simp
      then show "\<exists>a b. prefix tr a \<and> prefix b s \<and> DeleteLoadBalancer e a ?lb = (None, b)" by blast
    qed
    with p l show ?thesis by simp
  qed
  have c5: "NLBFinalizer \<in> set (Finalizers nlb') \<or> (\<exists>s r. T = s @ [K8s (Update nlb') r] \<and> prefix tr s)"
  proof (cases "r1 = None \<and> r2 = None")
    case True
    with B have "fx = [K8s (Update nlb') (k8s e (tr @ m @ ex @ lbx) (Update nlb'))]" by simp
    with T have "T = (tr @ m @ ex @ lbx) @ [K8s (Update nlb') (k8s e (tr @ m @ ex @ lbx) (Update nlb'))]
        \<and> prefix tr (tr @ m @ ex @ lbx)" by simp
    then show ?thesis by blast
  next
    case False
    with A B have "nlb' = nlb1" by (cases r1; cases r2) auto
    with f1 fin show ?thesis by simp
  qed
  have quiet: "fx = [] \<Longrightarrow> \<forall>ev\<in>set (drop (length tr) T). kind_of ev \<noteq> ObjectWrite"
    using T km kex klbx by auto
  have c6: "teardown_failed tr nlb (res, T, nlb') err"
    if h: "T = s @ Sdk (DeleteListenerRequest i) x # post" "prefix tr s" "fst (DeleteListener e s i) = Some err"
    for s i x post err
  proof -
    let ?ev = "Sdk (DeleteListenerRequest i) x"
    from h(2) obtain s0 where s0: "s = tr @ s0" by (auto simp: prefix_def)
    with T h(1) have e0: "m @ (ex @ lbx @ fx) = s0 @ ?ev # post" by simp
    from split_kind [OF e0 km] obtain s1 where s1: "s0 = m @ s1" "ex @ (lbx @ fx) = s1 @ ?ev # post"
      by auto
    have "?ev \<notin> set (lbx @ fx)" using klbx kfx by auto
    from split_foreign_right [OF s1(2) this] obtain post' where p': "ex = s1 @ ?ev # post'" by blast
    with s0 s1 have "tr @ m @ ex = s @ ?ev # post'" "prefix (tr @ m) s" by simp_all
    from deleteListeners_calls [OF dl this] obtain i' where
      "?ev = Sdk (DeleteListenerRequest i') (sdk e s (DeleteListenerRequest i'))"
      "fst (DeleteListener e s i') = None \<or> (r1 \<noteq> None \<and> fst (DeleteListener e s i') = r1)"
      by auto
    with h(3) have r1: "r1 = Some err" by auto
    with A have "lbx = []" "fx = []" "res = Inr (requeueAfter (30 * Second), Some err)" "nlb' = nlb1"
      by simp_all
    with f1 quiet show ?thesis by (simp add: teardown_failed_def)
  qed
  have c7: "l = ?lb \<and> teardown_failed tr nlb (res, T, nlb') err"
    if h: "T = s @ Sdk (GetLoadBalancerAttributeRequest l) x # post" "prefix tr s"
          "fst (DeleteLoadBalancer e s l) = Some err"
    for s l x post err
  proof -
    let ?ev = "Sdk (GetLoadBalancerAttributeRequest l) x"
    from h(2) obtain s0 where s0: "s = tr @ s0" by (auto simp: prefix_def)
    with T h(1) have e0: "m @ (ex @ lbx @ fx) = s0 @ ?ev # post" by simp
    from split_kind [OF e0 km] obtain s1 where s1: "s0 = m @ s1" "ex @ (lbx @ fx) = s1 @ ?ev # post"
      by auto
    from split_kind [OF s1(2) kex] obtain s2 where s2: "s1 = ex @ s2" "lbx @ fx = s2 @ ?ev # post"
      by auto
    have "?ev \<notin> set fx" using kfx by auto
    from split_foreign_right [OF s2(2) this] obtain post' where p': "lbx = s2 @ ?ev # post'" by blast
    with lbx_shape obtain g cx rec b where
      sh: "r1 = None" "lbx = Sdk (GetLoadBalancerAttributeRequest ?lb) g # cx @ [rec]"
          "\<forall>ev\<in>set (cx @ [rec]). kind_of ev \<in> {Logged, Protect, DeleteLB, JobPoll, Pause, Recorded}"
          "DeleteLoadBalancer e (tr @ m @ ex) ?lb = (r2, b)"
      by auto
    from sh(2) p' have e2: "[Sdk (GetLoadBalancerAttributeRequest ?lb) g] @ (cx @ [rec]) = s2 @ ?ev # post'"
      by simp
    have "?ev \<notin> set (cx @ [rec])" using sh(3) by auto
    from split_foreign_right [OF e2 this] obtain q where "[Sdk (GetLoadBalancerAttributeRequest ?lb) g] = s2 @ ?ev # q"
      by blast
    then have s2n: "s2 = []" and l: "l = ?lb"
      by (auto simp: Cons_eq_append_conv)
    from s0 s1 s2 s2n have "s = tr @ m @ ex" by simp
    with h(3) sh(4) l have r2: "r2 = Some err" by simp
    with B sh(1) have "fx = []" "res = Inr (requeueAfter (30 * Second), Some err)" "nlb' = nlb1"
      by simp_all
    with f1 quiet l show ?thesis by (simp add: teardown_failed_def)
  qed
  have d3: "\<forall>s ev post. T = s @ ev # post \<and> prefix tr s \<and> kind_of ev \<in> {GetLB, Protect, DeleteLB} \<longrightarrow>
          listener_deletes (drop (length tr) s) = recorded_listeners nlb \<and> listeners_deleted e tr s nlb"
    using c3 by blast
  have d4: "\<forall>s x r post. T = s @ K8s (Update x) r # post \<and> prefix tr s \<longrightarrow>
          post = [] \<and> x = nlb' \<and> listeners_deleted e tr s nlb \<and> load_balancer_deleted e tr s nlb"
    using c4 by blast
  have d6: "\<forall>s i x post err. T = s @ Sdk (DeleteListenerRequest i) x # post \<and> prefix tr s
            \<and> fst (DeleteListener e s i) = Some err \<longrightarrow>
          teardown_failed tr nlb (res, T, nlb') err"
    using c6 by blast
  have d7: "\<forall>s l x post err. T = s @ Sdk (GetLoadBalancerAttributeRequest l) x # post \<and> prefix tr s
            \<and> fst (DeleteLoadBalancer e s l) = Some err \<longrightarrow>
          l = LoadBalancerId (Status nlb) \<and> teardown_failed tr nlb (res, T, nlb') err"
    using c7 by blast
  from c1 c2 d3 d4 c5 d6 d7 show ?thesis by (intro conjI)
qed

lemma Contains_delete_lb_error [simp]:
  "Contains (''failed to delete load balancer: '' @ m) ''ResourceNotFound'' = Contains m ''ResourceNotFound''"
  by (rule Contains_skip) simp

lemma handleDeletion_done:
  "handleDeletion env_creates [] nlb_deleting =
     (Inr (Result_empty, None),
      [Sdk (DeleteListenerRequest ''lsn-1'') (Some active_body, None),
       Sdk (GetLoadBalancerAttributeRequest ''nlb-1'') (Some active_body, None),
       Sdk (UpdateLoadBalancerProtectionRequest ''nlb-1'' False None) (Some active_body, None),
       Sdk (DeleteLoadBalancerRequest ''nlb-1'') (Some active_body, None),
       RecorderEvent ''Normal'' ''DeletionSuccess'' ''Successfully deleted NLB: nlb-1'',
       K8s (Update (nlb_deleting\<lparr>Finalizers := []\<rparr>)) None],
      nlb_deleting\<lparr>Finalizers := []\<rparr>)"
  by (simp add: handleDeletion_def ContainsFinalizer_def markDeleting_def DeleteListener_def
      DeleteLoadBalancer_def GetLoadBalancer_def disableProtection_def UpdateLoadBalancerProtection_def
      issueDelete_def removeFinalizer_def RemoveFinalizer_def k8s_call_def sdk_call_def Let_def
      env_creates_def nlb_deleting_def active_body_def Body_empty_def ReasonDeletionSuccess_def
      NLBFinalizer_def)

lemma first_pass_run:
  "first_pass =
     (Inr (requeueAfter (30 * Second), Some ''failed to delete load balancer: Throttling''),
      [Sdk (DeleteListenerRequest ''lsn-1'') (Some Body_empty, None),
       Sdk (GetLoadBalancerAttributeRequest ''nlb-1'') (Some active_body, None),
       Sdk (UpdateLoadBalancerProtectionRequest ''nlb-1'' False None) (Some active_body, None),
       Sdk (DeleteLoadBalancerRequest ''nlb-1'') (None, Some ''Throttling''),
       RecorderEvent ''Warning'' ''DeletionError'' ''Failed to delete NLB: failed to delete load balancer: Throttling''],
      nlb_deleting)"
  by (simp add: first_pass_def handleDeletion_def ContainsFinalizer_def markDeleting_def DeleteListener_def
      DeleteLoadBalancer_def GetLoadBalancer_def disableProtection_def UpdateLoadBalancerProtection_def
      issueDelete_def k8s_call_def sdk_call_def
      env_delete_stalls_def nlb_deleting_def active_body_def Body_empty_def ReasonDeletionError_def
      NLBFinalizer_def)

lemma second_pass_run:
  "second_pass =
     (Inr (requeueAfter (30 * Second), Some ''failed to delete load balancer: Throttling''),
      fst (snd first_pass) @
      [Sdk (DeleteListenerRequest ''lsn-1'') (None, Some ''ResourceNotFound.listener''),
       Sdk (GetLoadBalancerAttributeRequest ''nlb-1'') (Some active_body, None),
       Sdk (UpdateLoadBalancerProtectionRequest ''nlb-1'' False None) (Some active_body, None),
       Sdk (DeleteLoadBalancerRequest ''nlb-1'') (None, Some ''Throttling''),
       RecorderEvent ''Warning'' ''DeletionError'' ''Failed to delete NLB: failed to delete load balancer: Throttling''],
      nlb_deleting)"
  by (simp add: second_pass_def first_pass_run handleDeletion_def ContainsFinalizer_def markDeleting_def DeleteListener_def
      DeleteLoadBalancer_def GetLoadBalancer_def disableProtection_def UpdateLoadBalancerProtection_def
      issueDelete_def k8s_call_def sdk_call_def
      env_delete_stalls_def nlb_deleting_def active_body_def Body_empty_def ReasonDeletionError_def
      NLBFinalizer_def)

lemma handleDeletion_frame:
  assumes "handleDeletion e tr nlb = (res, T, nlb')"
  shows "ListenerStatus (Status nlb') = ListenerStatus (Status nlb)
       \<and> LoadBalancerId (Status nlb') = LoadBalancerId (Status nlb)
       \<and> Spec nlb' = Spec nlb"
proof (cases "NLBFinalizer \<in> set (Finalizers nlb)")
  case False
  with assms show ?thesis by (simp add: handleDeletion_def ContainsFinalizer_def)
next
  case True
  obtain t0 nlb1 where md: "markDeleting e tr nlb = (t0, nlb1)" by (cases "markDeleting e tr nlb")
  have n1: "ListenerStatus (Status nlb1) = ListenerStatus (Status nlb)"
    "LoadBalancerId (Status nlb1) = LoadBalancerId (Status nlb)" "Spec nlb1 = Spec nlb"
    using md by (auto simp: markDeleting_def Let_def split: if_splits)
  from handleDeletion_structure [OF True assms] md
  have "nlb' = nlb1 \<or> nlb' = RemoveFinalizer nlb1 NLBFinalizer"
    using assms True
    by (auto simp: handleDeletion_def ContainsFinalizer_def removeFinalizer_eq
        split: prod.splits option.splits if_splits)
  with n1 show ?thesis by (auto simp: RemoveFinalizer_def)
qed

lemma deleteListeners_all_ok:
  "\<forall>s. prefix t s \<longrightarrow> (\<forall>i\<in>set (filter (\<lambda>i. i \<noteq> []) (map ListenerId ls)). NotFound (sdk e s (DeleteListenerRequest i)))
   \<Longrightarrow> fst (deleteListeners e t ls) = None"
proof (induction ls arbitrary: t)
  case Nil
  then show ?case by simp
next
  case (Cons l ls)
  show ?case
  proof (cases "ListenerId l = []")
    case True
    with Cons.prems have "\<forall>s. prefix t s \<longrightarrow>
        (\<forall>i\<in>set (filter (\<lambda>i. i \<noteq> []) (map ListenerId ls)). NotFound (sdk e s (DeleteListenerRequest i)))"
      by simp
    from Cons.IH [OF this] True show ?thesis by simp
  next
    case False
    let ?i = "ListenerId l"
    let ?t1 = "t @ [Sdk (DeleteListenerRequest ?i) (sdk e t (DeleteListenerRequest ?i))]"
    from Cons.prems False have "NotFound (sdk e t (DeleteListenerRequest ?i))" by auto
    then have d: "DeleteListener e t ?i = (None, ?t1)" by (rule DeleteListener_NotFound)
    have "\<forall>s. prefix ?t1 s \<longrightarrow>
        (\<forall>i\<in>set (filter (\<lambda>i. i \<noteq> []) (map ListenerId ls)). NotFound (sdk e s (DeleteListenerRequest i)))"
    proof (intro allI impI)
      fix s assume "prefix ?t1 s"
      then have "prefix t s" by (metis prefixI prefix_order.trans)
      with Cons.prems show "\<forall>i\<in>set (filter (\<lambda>i. i \<noteq> []) (map ListenerId ls)). NotFound (sdk e s (DeleteListenerRequest i))"
        by auto
    qed
    from Cons.IH [OF this] False d show ?thesis by simp
  qed
qed

lemma handleDeletion_regions:
  assumes fin: "NLBFinalizer \<in> set (Finalizers nlb)"
    and run: "handleDeletion e tr nlb = (res, T, nlb')"
  shows "\<exists>m ex lbx fx r1. T = tr @ m @ ex @ lbx @ fx
    \<and> deleteListeners e (tr @ m) (ListenerStatus (Status nlb)) = (r1, tr @ m @ ex)
    \<and> listener_deletes m = [] \<and> listener_deletes lbx = [] \<and> listener_deletes fx = []
    \<and> (r1 = None \<and> LoadBalancerId (Status nlb) \<noteq> [] \<longrightarrow>
          (\<exists>g cx. lbx = Sdk (GetLoadBalancerAttributeRequest (LoadBalancerId (Status nlb))) g # cx))"
proof -
  let ?ls = "ListenerStatus (Status nlb)"
  let ?lb = "LoadBalancerId (Status nlb)"
  from handleDeletion_structure [OF fin run] obtain m ex lbx fx r1 r2 nlb1 where
    T: "T = tr @ m @ ex @ lbx @ fx"
    and km: "\<forall>ev\<in>set m. kind_of ev \<in> {StatusWrite}"
    and dl: "deleteListeners e (tr @ m) ?ls = (r1, tr @ m @ ex)"
    and A: "r1 \<noteq> None \<longrightarrow> lbx = [] \<and> fx = [] \<and> res = Inr (requeueAfter (30 * Second), r1) \<and> nlb' = nlb1"
    and B: "r1 = None \<longrightarrow>
          (if ?lb = [] then lbx = [] \<and> r2 = None
           else (\<exists>c rec. lbx = c @ [rec] \<and> kind_of rec = Recorded
                   \<and> DeleteLoadBalancer e (tr @ m @ ex) ?lb = (r2, tr @ m @ ex @ c)))
        \<and> (r2 \<noteq> None \<longrightarrow> fx = [] \<and> res = Inr (requeueAfter (30 * Second), r2) \<and> nlb' = nlb1)
        \<and> (r2 = None \<longrightarrow>
              fx = [K8s (Update nlb') (k8s e (tr @ m @ ex @ lbx) (Update nlb'))]
            \<and> nlb' = RemoveFinalizer nlb1 NLBFinalizer
            \<and> res = Inr (Result_empty, k8s e (tr @ m @ ex @ lbx) (Update nlb')))"
    by blast
  have shape: "lbx = [] \<or> (\<exists>g cx. lbx = Sdk (GetLoadBalancerAttributeRequest ?lb) g # cx
        \<and> (\<forall>ev\<in>set cx. kind_of ev \<in> {Logged, Protect, DeleteLB, JobPoll, Pause, Recorded}))"
  proof (cases "lbx = []")
    case True
    then show ?thesis by simp
  next
    case False
    with A have r1n: "r1 = None" by auto
    with B False obtain c rec where
      c: "lbx = c @ [rec]" "kind_of rec = Recorded"
         "DeleteLoadBalancer e (tr @ m @ ex) ?lb = (r2, tr @ m @ ex @ c)"
      by (auto split: if_splits)
    from DeleteLoadBalancer_trace [OF c(3)] obtain cx where
      cx: "c = Sdk (GetLoadBalancerAttributeRequest ?lb) (sdk e (tr @ m @ ex) (GetLoadBalancerAttributeRequest ?lb)) # cx"
          "\<forall>ev\<in>set cx. kind_of ev \<in> {Logged, Protect, DeleteLB, JobPoll, Pause}"
      by auto
    from c cx have "lbx = Sdk (GetLoadBalancerAttributeRequest ?lb) (sdk e (tr @ m @ ex) (GetLoadBalancerAttributeRequest ?lb)) # (cx @ [rec])
        \<and> (\<forall>ev\<in>set (cx @ [rec]). kind_of ev \<in> {Logged, Protect, DeleteLB, JobPoll, Pause, Recorded})"
      by auto
    then show ?thesis by blast
  qed
  then have "\<forall>ev\<in>set lbx. kind_of ev \<noteq> DeleteLsn" by fastforce
  then have l1: "listener_deletes lbx = []" by (rule listener_deletes_none)
  have "fx = [] \<or> fx = [K8s (Update nlb') (k8s e (tr @ m @ ex @ lbx) (Update nlb'))]"
    using A B by (cases r1; cases r2) auto
  then have l2: "listener_deletes fx = []" by auto
  have l0: "listener_deletes m = []" using km by (intro listener_deletes_none) auto
  have g: "r1 = None \<and> ?lb \<noteq> [] \<longrightarrow> (\<exists>g cx. lbx = Sdk (GetLoadBalancerAttributeRequest ?lb) g # cx)"
  proof
    assume "r1 = None \<and> ?lb \<noteq> []"
    with B have "lbx \<noteq> []" by auto
    with shape show "\<exists>g cx. lbx = Sdk (GetLoadBalancerAttributeRequest ?lb) g # cx" by blast
  qed
  from T dl l0 l1 l2 g show ?thesis by blast
qed

text \<open>
  C7, as amended. When a Terminating pass ends with the finalizer still set, the
  listener records of the status are as they were. A second pass then requests the
  delete of every recorded listener again, in the listed order; where the provider
  reports these listeners as not found, each of these calls returns success, and the
  pass goes on to the delete of the load balancer.
\<close>

theorem handleDeletion_reentrant:
  assumes fin: "NLBFinalizer \<in> set (Finalizers nlb)"
    and first: "handleDeletion e tr nlb = (res1, T1, nlb1)"
    and kept: "NLBFinalizer \<in> set (Finalizers nlb1)"
    and second: "handleDeletion e T1 nlb1 = (res2, T2, nlb2)"
    and gone: "\<forall>s. prefix T1 s \<longrightarrow> (\<forall>i\<in>set (recorded_listeners nlb). NotFound (sdk e s (DeleteListenerRequest i)))"
  shows "recorded_listeners nlb1 = recorded_listeners nlb
    \<and> listener_deletes (drop (length T1) T2) = recorded_listeners nlb
    \<and> (\<forall>s i x post. T2 = s @ Sdk (DeleteListenerRequest i) x # post \<and> prefix T1 s \<longrightarrow>
          fst (DeleteListener e s i) = None)
    \<and> (LoadBalancerId (Status nlb) \<noteq> [] \<longrightarrow>
          (\<exists>s x post. T2 = s @ Sdk (GetLoadBalancerAttributeRequest (LoadBalancerId (Status nlb))) x # post
             \<and> prefix T1 s))"
proof -
  from handleDeletion_frame [OF first] have fr:
    "ListenerStatus (Status nlb1) = ListenerStatus (Status nlb)"
    "LoadBalancerId (Status nlb1) = LoadBalancerId (Status nlb)"
    by simp_all
  then have c1: "recorded_listeners nlb1 = recorded_listeners nlb"
    by (simp add: recorded_listeners_def)
  let ?ls = "ListenerStatus (Status nlb)"
  let ?lb = "LoadBalancerId (Status nlb)"
  from handleDeletion_regions [OF kept second, unfolded fr] obtain m ex lbx fx r1 where
    T: "T2 = T1 @ m @ ex @ lbx @ fx"
    and dl: "deleteListeners e (T1 @ m) ?ls = (r1, T1 @ m @ ex)"
    and l: "listener_deletes m = []" "listener_deletes lbx = []" "listener_deletes fx = []"
    and g: "r1 = None \<and> ?lb \<noteq> [] \<longrightarrow> (\<exists>g cx. lbx = Sdk (GetLoadBalancerAttributeRequest ?lb) g # cx)"
    by blast
  have "\<forall>s. prefix (T1 @ m) s \<longrightarrow>
      (\<forall>i\<in>set (filter (\<lambda>i. i \<noteq> []) (map ListenerId ?ls)). NotFound (sdk e s (DeleteListenerRequest i)))"
  proof (intro allI impI)
    fix s assume "prefix (T1 @ m) s"
    then have "prefix T1 s" by (metis prefixI prefix_order.trans)
    with gone show "\<forall>i\<in>set (filter (\<lambda>i. i \<noteq> []) (map ListenerId ?ls)). NotFound (sdk e s (DeleteListenerRequest i))"
      by (simp add: recorded_listeners_def)
  qed
  from deleteListeners_all_ok [OF this] dl have r1: "r1 = None" by simp
  from deleteListeners_trace [OF dl] r1 have "listener_deletes ex = recorded_listeners nlb"
    by (auto simp: recorded_listeners_def)
  with T l have c2: "listener_deletes (drop (length T1) T2) = recorded_listeners nlb" by simp
  have c3: "\<forall>s i x post. T2 = s @ Sdk (DeleteListenerRequest i) x # post \<and> prefix T1 s \<longrightarrow>
          fst (DeleteListener e s i) = None"
  proof (intro allI impI)
    fix s i x post
    assume h: "T2 = s @ Sdk (DeleteListenerRequest i) x # post \<and> prefix T1 s"
    let ?ev = "Sdk (DeleteListenerRequest i) x"
    from h obtain s0 where s0: "s = T1 @ s0" by (auto simp: prefix_def)
    with T h have e0: "m @ (ex @ lbx @ fx) = s0 @ ?ev # post" by simp
    have "?ev \<notin> set m"
    proof
      assume "?ev \<in> set m"
      from split_list [OF this] obtain a b where "m = a @ ?ev # b" by blast
      with l(1) show False by simp
    qed
    from split_foreign [OF e0 this] obtain s1 where s1: "s0 = m @ s1" "ex @ (lbx @ fx) = s1 @ ?ev # post"
      by auto
    have "?ev \<notin> set (lbx @ fx)"
    proof
      assume "?ev \<in> set (lbx @ fx)"
      from split_list [OF this] obtain a b where "lbx @ fx = a @ ?ev # b" by blast
      then have "listener_deletes (lbx @ fx) = listener_deletes (a @ ?ev # b)" by simp
      with l(2,3) show False by simp
    qed
    from split_foreign_right [OF s1(2) this] obtain post' where p': "ex = s1 @ ?ev # post'" by blast
    with s0 s1 have "T1 @ m @ ex = s @ ?ev # post'" "prefix (T1 @ m) s" by simp_all
    from deleteListeners_calls [OF dl this] r1 show "fst (DeleteListener e s i) = None" by auto
  qed
  have c4: "?lb \<noteq> [] \<longrightarrow>
          (\<exists>s x post. T2 = s @ Sdk (GetLoadBalancerAttributeRequest ?lb) x # post \<and> prefix T1 s)"
  proof
    assume "?lb \<noteq> []"
    with g r1 obtain gg cx where "lbx = Sdk (GetLoadBalancerAttributeRequest ?lb) gg # cx" by blast
    with T have "T2 = (T1 @ m @ ex) @ Sdk (GetLoadBalancerAttributeRequest ?lb) gg # (cx @ fx)
        \<and> prefix T1 (T1 @ m @ ex)" by simp
    then show "\<exists>s x post. T2 = s @ Sdk (GetLoadBalancerAttributeRequest ?lb) x # post \<and> prefix T1 s"
      by blast
  qed
  from c1 c2 c3 c4 show ?thesis by (intro conjI)
qed

theorem handleDeletion_order_witness:
  "NLBFinalizer \<in> set (Finalizers nlb_deleting)
   \<and> fst (handleDeletion env_creates [] nlb_deleting) = Inr (Result_empty, None)
   \<and> prefix (listener_deletes (drop (length []) (fst (snd (handleDeletion env_creates [] nlb_deleting)))))
        (recorded_listeners nlb_deleting)
   \<and> listener_deletes (fst (snd (handleDeletion env_creates [] nlb_deleting))) = [''lsn-1'']
   \<and> NLBFinalizer \<notin> set (Finalizers (snd (snd (handleDeletion env_creates [] nlb_deleting))))"
proof -
  have f: "NLBFinalizer \<in> set (Finalizers nlb_deleting)" by (simp add: nlb_deleting_def)
  have r: "recorded_listeners nlb_deleting = [''lsn-1'']"
    by (simp add: recorded_listeners_def nlb_deleting_def)
  show ?thesis
    using handleDeletion_order [OF f handleDeletion_done, THEN conjunct2, THEN conjunct1] f
    by (simp add: handleDeletion_done r)
qed

lemma first_pass_projections:
  "handleDeletion env_delete_stalls [] nlb_deleting = (fst first_pass, fst (snd first_pass), snd (snd first_pass))"
  by (simp add: first_pass_def)

lemma second_pass_projections:
  "handleDeletion env_delete_stalls (fst (snd first_pass)) (snd (snd first_pass))
     = (fst second_pass, fst (snd second_pass), snd (snd second_pass))"
  by (simp add: second_pass_def)

lemma listeners_stay_gone:
  "\<forall>s. prefix (fst (snd first_pass)) s \<longrightarrow>
     (\<forall>i\<in>set (recorded_listeners nlb_deleting). NotFound (sdk env_delete_stalls s (DeleteListenerRequest i)))"
proof (intro allI impI)
  fix s assume "prefix (fst (snd first_pass)) s"
  then obtain z where "s = fst (snd first_pass) @ z" by (auto simp: prefix_def)
  then have "list_ex (deletes_listener ''lsn-1'') s" by (simp add: first_pass_run)
  then show "\<forall>i\<in>set (recorded_listeners nlb_deleting). NotFound (sdk env_delete_stalls s (DeleteListenerRequest i))"
    by (simp add: recorded_listeners_def nlb_deleting_def env_delete_stalls_def NotFound_def)
qed

theorem handleDeletion_reentrant_witness:
  "NLBFinalizer \<in> set (Finalizers nlb_deleting)
   \<and> NLBFinalizer \<in> set (Finalizers (snd (snd first_pass)))
   \<and> recorded_listeners (snd (snd first_pass)) = recorded_listeners nlb_deleting
   \<and> listener_deletes (drop (length (fst (snd first_pass))) (fst (snd second_pass))) = recorded_listeners nlb_deleting
   \<and> recorded_listeners nlb_deleting = [''lsn-1'']"
proof -
  have f: "NLBFinalizer \<in> set (Finalizers nlb_deleting)" by (simp add: nlb_deleting_def)
  have k: "NLBFinalizer \<in> set (Finalizers (snd (snd first_pass)))"
    by (simp add: first_pass_run nlb_deleting_def)
  have r: "recorded_listeners nlb_deleting = [''lsn-1'']"
    by (simp add: recorded_listeners_def nlb_deleting_def)
  note t = handleDeletion_reentrant [OF f first_pass_projections k second_pass_projections listeners_stay_gone]
  from t [THEN conjunct1] t [THEN conjunct2, THEN conjunct1] f k r show ?thesis by (intro conjI)
qed

text \<open>
  C7 as stated fails: after a first pass whose listener delete succeeded and whose
  load-balancer delete failed, the second pass issues the delete request for the same
  listener again.
\<close>

theorem second_pass_deletes_listener_again:
  "fst first_pass = Inr (requeueAfter (30 * Second), Some ''failed to delete load balancer: Throttling'')
   \<and> listener_deletes (fst (snd first_pass)) = [''lsn-1'']
   \<and> listener_deletes (drop (length (fst (snd first_pass))) (fst (snd second_pass))) = [''lsn-1'']"
  by (simp add: second_pass_run) (simp add: first_pass_run)

end
